theory Spec2Isabelle
  imports Main "HOL-Library.Sublist"
begin

section \<open>Data model of \<open>pkg/bao/node.go\<close>\<close>

text \<open>
  Errors are values. Every \<open>fmt.Errorf\<close> of the source is kept with its format string,
  the arguments it prints and, for the verb \<open>%w\<close>, the error it wraps.
\<close>

datatype fmtarg = ArgD nat | ArgV string

datatype error = Errorf string "fmtarg list" "error option"

text \<open>
  A Go panic is not a returned error: it unwinds through every caller. An operation that
  can panic returns an \<open>outcome\<close>; the state reached when the panic unwinds is not kept.
\<close>

datatype 'a outcome = Done 'a | Panic string

text \<open>
  \<open>DevConfig\<close>, \<open>ExecEnvironment\<close>, \<open>NodeConfig\<close> and the interfaces \<open>Listener\<close> and
  \<open>Storage\<close> are declared outside \<open>node.go\<close>. The fields below are the ones \<open>node.go\<close>
  reads or writes. The values behind the two interfaces are type parameters \<open>'l\<close> and \<open>'s\<close>.
\<close>

record DevConfig =
  Token :: string

record ExecEnvironment =
  Args :: "string list"
  Directory :: string
  ConnectAddress :: string
  Pid :: int

record ('l, 's) NodeConfig =
  Listeners :: "'l list"
  Storage :: "'s option"
  Dev :: "DevConfig option"

record ('l, 's) Node =
  Name :: string
  Type :: string
  Exec :: "ExecEnvironment option"
  Config :: "('l, 's) NodeConfig"

text \<open>
  \<open>NodeConfigOpt\<close> is \<open>interface{}\<close>. The type switch of \<open>BuildNode\<close> sorts a value by its
  dynamic type, first matching case first: a value implementing \<open>Listener\<close>, a value
  implementing \<open>Storage\<close>, a \<open>*DevConfig\<close> (which may be a nil pointer), or anything else
  (the nil interface included), kept with its \<open>%v\<close> and \<open>%T\<close> renderings.
\<close>

datatype ('l, 's) NodeConfigOpt =
    OptListener 'l
  | OptStorage 's
  | OptDev "DevConfig option"
  | OptOther string string

text \<open>The zero value of \<open>NodeConfig\<close>, as in \<open>&Node{Name: name, Type: product}\<close> and \<open>var node Node\<close>.\<close>

definition zero_NodeConfig :: "('l, 's) NodeConfig" where
  "zero_NodeConfig = \<lparr>Listeners = [], Storage = None, Dev = None\<rparr>"

section \<open>Validation and construction\<close>

text \<open>
  \<open>Node.Validate\<close> (pointer receiver: the node is returned updated). \<open>NodeConfig.Validate\<close>
  is not in \<open>node.go\<close>; it is the parameter \<open>cv\<close>.
\<close>

definition Validate ::
  "(('l, 's) NodeConfig \<Rightarrow> error option) \<Rightarrow> ('l, 's) Node \<Rightarrow> ('l, 's) Node \<times> error option" where
  "Validate cv n =
     (let n1 = (if Name n = [] then
                  (if Dev (Config n) = None then n\<lparr>Name := ''dev''\<rparr> else n\<lparr>Name := ''prod''\<rparr>)
                else n)
      in if Type n1 \<noteq> [] \<and> Type n1 \<noteq> ''bao'' \<and> Type n1 \<noteq> ''vault'' then
           (n1, Some (Errorf ''invalid node type (`%s`): expected either empty (``), OpenBao (`bao`), or HashiCorp Vault (`vault`)''
                        [ArgV (Type n1)] None))
         else (n1, cv (Config n1)))"

text \<open>The loop of \<open>BuildNode\<close> over \<open>opts\<close>, from position \<open>index\<close>, on the configuration built so far.\<close>

fun classify ::
  "nat \<Rightarrow> ('l, 's) NodeConfigOpt list \<Rightarrow> ('l, 's) NodeConfig \<Rightarrow> error + ('l, 's) NodeConfig" where
  "classify index [] c = Inr c"
| "classify index (OptListener l # opts) c =
     classify (Suc index) opts (c\<lparr>Listeners := Listeners c @ [l]\<rparr>)"
| "classify index (OptStorage s # opts) c =
     classify (Suc index) opts (c\<lparr>Storage := Some s\<rparr>)"
| "classify index (OptDev d # opts) c =
     classify (Suc index) opts (c\<lparr>Dev := d\<rparr>)"
| "classify index (OptOther v t # opts) c =
     Inl (Errorf ''unknown type of node configuration option at index %d: %v (%T)''
            [ArgD index, ArgV v, ArgV t] None)"

definition BuildNode ::
  "(('l, 's) NodeConfig \<Rightarrow> error option) \<Rightarrow> string \<Rightarrow> string \<Rightarrow> ('l, 's) NodeConfigOpt list
     \<Rightarrow> error + ('l, 's) Node" where
  "BuildNode cv name product opts =
     (case classify 0 opts zero_NodeConfig of
        Inl e \<Rightarrow> Inl e
      | Inr c \<Rightarrow>
          (case Validate cv \<lparr>Name = name, Type = product, Exec = None, Config = c\<rparr> of
             (n, Some err) \<Rightarrow> Inl (Errorf ''invalid node configuration: %w'' [] (Some err))
           | (n, None) \<Rightarrow> Inr n))"

text \<open>
  The words of the specification for what \<open>BuildNode\<close> collects: the listeners among the
  options in their order, the storages, the \<open>*DevConfig\<close> pointers, and whether an option
  is of a recognized variant.
\<close>

fun listener_opts :: "('l, 's) NodeConfigOpt list \<Rightarrow> 'l list" where
  "listener_opts [] = []"
| "listener_opts (OptListener l # opts) = l # listener_opts opts"
| "listener_opts (_ # opts) = listener_opts opts"

fun storage_opts :: "('l, 's) NodeConfigOpt list \<Rightarrow> 's list" where
  "storage_opts [] = []"
| "storage_opts (OptStorage s # opts) = s # storage_opts opts"
| "storage_opts (_ # opts) = storage_opts opts"

fun dev_opts :: "('l, 's) NodeConfigOpt list \<Rightarrow> DevConfig option list" where
  "dev_opts [] = []"
| "dev_opts (OptDev d # opts) = d # dev_opts opts"
| "dev_opts (_ # opts) = dev_opts opts"

fun recognized :: "('l, 's) NodeConfigOpt \<Rightarrow> bool" where
  "recognized (OptOther v t) = False"
| "recognized _ = True"

section \<open>Connection surface\<close>

text \<open>
  \<open>Node.GetConnectAddr\<close>. \<open>NodeConfig.GetConnectAddr\<close> is not in \<open>node.go\<close>; it is the
  parameter \<open>cga\<close>, returning the address and the TLS flag, or an error.
\<close>

definition GetConnectAddr ::
  "(('l, 's) NodeConfig \<Rightarrow> error + string \<times> bool) \<Rightarrow> ('l, 's) Node \<Rightarrow> error + string" where
  "GetConnectAddr cga n =
     (case cga (Config n) of
        Inl err \<Rightarrow>
          Inl (Errorf ''failed to get connection address for node %v: %w'' [ArgV (Name n)] (Some err))
      | Inr (addr, isTls) \<Rightarrow>
          (let scheme = (if isTls then ''https'' else ''http'')
           in Inr (scheme @ ''://'' @ addr)))"

definition GetToken :: "('l, 's) Node \<Rightarrow> error + string" where
  "GetToken n =
     (case Dev (Config n) of
        Some dev \<Rightarrow> (let token = ''devroot'' in if Token dev \<noteq> [] then Inr (Token dev) else Inr token)
      | None \<Rightarrow> Inr [])"

text \<open>\<open>Node.GetEnv\<close>: the \<open>map[string]string\<close> it fills is a map from names to values.\<close>

definition GetEnv ::
  "(('l, 's) NodeConfig \<Rightarrow> error + string \<times> bool) \<Rightarrow> ('l, 's) Node
     \<Rightarrow> error + (string \<rightharpoonup> string)" where
  "GetEnv cga n =
     (let results = Map.empty; prefix = ''VAULT_''
      in case GetConnectAddr cga n of
           Inl err \<Rightarrow> Inl err
         | Inr addr \<Rightarrow>
             (let results = results(prefix @ ''ADDR'' \<mapsto> addr)
              in case GetToken n of
                   Inl err \<Rightarrow> Inl err
                 | Inr token \<Rightarrow> Inr (results(prefix @ ''TOKEN'' \<mapsto> token))))"

section \<open>The world outside the supervisor\<close>

text \<open>
  A JSON document as the tree it denotes, with integers for numbers and byte strings for
  strings. What \<open>encoding/json\<close> does to strings that are not valid UTF-8 and to numbers
  that \<open>float64\<close> does not hold exactly is modelled on this tree, below.
\<close>

datatype json =
    JNull
  | JBool bool
  | JNumber int
  | JString string
  | JArray "json list"
  | JObject "(string \<times> json) list"

text \<open>
  \<open>encoding/json\<close> writes and reads strings as UTF-8: every byte that does not start a
  well-formed sequence becomes U+FFFD (the bytes EF BF BD), on writing and on reading.
  \<open>utf8_len\<close> is the length of the well-formed sequence at the head of the bytes, 0 when
  there is none, with the ranges of the second byte that exclude overlong forms,
  surrogates and code points beyond U+10FFFF.
\<close>

fun utf8_len :: "nat list \<Rightarrow> nat" where
  "utf8_len [] = 0"
| "utf8_len (b0 # bs) =
     (if b0 < 0x80 then 1
      else if 0xC2 \<le> b0 \<and> b0 \<le> 0xDF then
        (case bs of
           b1 # _ \<Rightarrow> if 0x80 \<le> b1 \<and> b1 \<le> 0xBF then 2 else 0
         | _ \<Rightarrow> 0)
      else if 0xE0 \<le> b0 \<and> b0 \<le> 0xEF then
        (case bs of
           b1 # b2 # _ \<Rightarrow>
             if (if b0 = 0xE0 then 0xA0 else 0x80) \<le> b1 \<and>
                b1 \<le> (if b0 = 0xED then 0x9F else 0xBF) \<and>
                0x80 \<le> b2 \<and> b2 \<le> 0xBF
             then 3 else 0
         | _ \<Rightarrow> 0)
      else if 0xF0 \<le> b0 \<and> b0 \<le> 0xF4 then
        (case bs of
           b1 # b2 # b3 # _ \<Rightarrow>
             if (if b0 = 0xF0 then 0x90 else 0x80) \<le> b1 \<and>
                b1 \<le> (if b0 = 0xF4 then 0x8F else 0xBF) \<and>
                0x80 \<le> b2 \<and> b2 \<le> 0xBF \<and> 0x80 \<le> b3 \<and> b3 \<le> 0xBF
             then 4 else 0
         | _ \<Rightarrow> 0)
      else 0)"

function coerce_utf8 :: "string \<Rightarrow> string" where
  "coerce_utf8 s =
     (if s = [] then []
      else
        (let k = utf8_len (map of_char s)
         in if k = 0 then [CHR 0xEF, CHR 0xBF, CHR 0xBD] @ coerce_utf8 (tl s)
            else take k s @ coerce_utf8 (drop k s)))"
  by pat_completeness auto
termination
  by (relation "measure length") (auto simp: Let_def)

declare coerce_utf8.simps [simp del]

fun json_utf8 :: "json \<Rightarrow> json" where
  "json_utf8 JNull = JNull"
| "json_utf8 (JBool b) = JBool b"
| "json_utf8 (JNumber n) = JNumber n"
| "json_utf8 (JString s) = JString (coerce_utf8 s)"
| "json_utf8 (JArray js) = JArray (map json_utf8 js)"
| "json_utf8 (JObject kvs) = JObject (map (\<lambda>(k, v). (coerce_utf8 k, json_utf8 v)) kvs)"







text \<open>What a file holds: a JSON document, or any other text.\<close>

datatype fdata = JsonText json | PlainText string

text \<open>
  The system calls \<open>node.go\<close> makes. Each can fail for reasons the model does not track
  (permissions, a full disk); \<open>oserr\<close> says which calls fail in a world, and with what error.
\<close>

datatype osop =
    OpMkdirAll string
  | OpRemoveAll string
  | OpOpen string
  | OpOpenFile string
  | OpWrite string

record world =
  home :: "string option"
  dirs :: "string set"
  files :: "string \<rightharpoonup> fdata"
  oserr :: "osop \<Rightarrow> error option"

text \<open>
  \<open>filepath.Join\<close> (on Unix): the non-empty elements, separated by slashes, then
  \<open>filepath.Clean\<close>; the empty string when every element is empty. \<open>filepath.Clean\<close>
  drops empty elements and \<open>.\<close>, lets \<open>..\<close> remove the element before it (at the root
  \<open>..\<close> is dropped, at the start of a relative path it is kept), and returns \<open>.\<close> for an
  empty result.
\<close>

fun join_elems :: "string list \<Rightarrow> string" where
  "join_elems [] = []"
| "join_elems [e] = e"
| "join_elems (e # es) = e @ ''/'' @ join_elems es"

fun split_slash :: "string \<Rightarrow> string list" where
  "split_slash [] = [[]]"
| "split_slash (c # cs) =
     (if c = CHR ''/'' then [] # split_slash cs
      else (case split_slash cs of [] \<Rightarrow> [[c]] | e # es \<Rightarrow> (c # e) # es))"

text \<open>One element of the path, on the elements kept so far, last first.\<close>

fun clean_elem :: "bool \<Rightarrow> string list \<Rightarrow> string \<Rightarrow> string list" where
  "clean_elem rooted kept elem =
     (if elem = [] \<or> elem = ''.'' then kept
      else if elem = ''..'' then
        (case kept of
           [] \<Rightarrow> if rooted then [] else [''..'']
         | prev # rest \<Rightarrow> if prev = ''..'' then ''..'' # kept else rest)
      else elem # kept)"

definition filepath_Clean :: "string \<Rightarrow> string" where
  "filepath_Clean p =
     (if p = [] then ''.''
      else
        (let rooted = (hd p = CHR ''/'');
             body = join_elems (rev (foldl (clean_elem rooted) [] (split_slash p)))
         in if rooted then CHR ''/'' # body
            else if body = [] then ''.'' else body))"

definition filepath_Join :: "string list \<Rightarrow> string" where
  "filepath_Join elems =
     (let nonempty = filter (\<lambda>e. e \<noteq> []) elems
      in if nonempty = [] then [] else filepath_Clean (join_elems nonempty))"

text \<open>
  The file system is the set of directories and the contents of the files, by path. A file
  is created in the directory \<open>dirname\<close> of its path, which must exist; \<open>within p q\<close> says
  that \<open>q\<close> is \<open>p\<close> or lies under it. \<open>os.MkdirAll\<close> records the directory it is asked for
  (its ancestors are not tracked), \<open>os.RemoveAll\<close> removes it with everything under it and
  does not fail when it is absent.
\<close>

definition dirname :: "string \<Rightarrow> string" where
  "dirname p = rev (tl (dropWhile (\<lambda>c. c \<noteq> CHR ''/'') (rev p)))"

definition within :: "string \<Rightarrow> string \<Rightarrow> bool" where
  "within p q = (q = p \<or> prefix (p @ ''/'') q)"

definition os_MkdirAll :: "string \<Rightarrow> world \<Rightarrow> world \<times> error option" where
  "os_MkdirAll path w =
     (case oserr w (OpMkdirAll path) of
        Some err \<Rightarrow> (w, Some err)
      | None \<Rightarrow>
          if files w path \<noteq> None then
            (w, Some (Errorf ''mkdir %v: not a directory'' [ArgV path] None))
          else (w\<lparr>dirs := insert path (dirs w)\<rparr>, None))"

definition os_RemoveAll :: "string \<Rightarrow> world \<Rightarrow> world \<times> error option" where
  "os_RemoveAll path w =
     (case oserr w (OpRemoveAll path) of
        Some err \<Rightarrow> (w, Some err)
      | None \<Rightarrow>
          (w\<lparr>dirs := Set.filter (\<lambda>d. \<not> within path d) (dirs w),
             files := (\<lambda>q. if within path q then None else files w q)\<rparr>, None))"

text \<open>\<open>os.Open\<close>, read to the end.\<close>

definition os_Open :: "string \<Rightarrow> world \<Rightarrow> error + fdata" where
  "os_Open path w =
     (case oserr w (OpOpen path) of
        Some err \<Rightarrow> Inl err
      | None \<Rightarrow>
          (case files w path of
             None \<Rightarrow> Inl (Errorf ''open %v: no such file or directory'' [ArgV path] None)
           | Some d \<Rightarrow> Inr d))"

text \<open>\<open>os.OpenFile(path, O_RDWR|O_CREATE|O_TRUNC, 0644)\<close>: the file exists and is empty afterwards.\<close>

definition os_OpenFile :: "string \<Rightarrow> world \<Rightarrow> world \<times> error option" where
  "os_OpenFile path w =
     (case oserr w (OpOpenFile path) of
        Some err \<Rightarrow> (w, Some err)
      | None \<Rightarrow>
          if dirname path \<notin> dirs w then
            (w, Some (Errorf ''open %v: no such file or directory'' [ArgV path] None))
          else if path \<in> dirs w then
            (w, Some (Errorf ''open %v: is a directory'' [ArgV path] None))
          else (w\<lparr>files := (files w)(path \<mapsto> PlainText [])\<rparr>, None))"

text \<open>Writing the whole of \<open>d\<close> to the file just opened; a failed write leaves it as it was.\<close>

definition os_Write :: "string \<Rightarrow> fdata \<Rightarrow> world \<Rightarrow> world \<times> error option" where
  "os_Write path d w =
     (case oserr w (OpWrite path) of
        Some err \<Rightarrow> (w, Some err)
      | None \<Rightarrow> (w\<lparr>files := (files w)(path \<mapsto> d)\<rparr>, None))"


text \<open>
  The functions of this repository that \<open>node.go\<close> calls and does not define. They are
  parameters of the model, collected in one record:
  \<^item> \<open>cfg_Validate\<close>, \<open>cfg_GetConnectAddr\<close>, \<open>cfg_AddArgs\<close>, \<open>cfg_ToConfig\<close>: the methods of
    \<open>NodeConfig\<close> of these names, which derive and do not store;
  \<^item> \<open>cfg_MarshalJSON\<close>: how \<open>encoding/json\<close> writes a \<open>NodeConfig\<close>;
  \<^item> \<open>cfg_FromInterface\<close>: \<open>NodeConfig.FromInterface\<close>, on the decoded object and the
    configuration the node holds;
  \<^item> \<open>exec_MarshalJSON\<close>, \<open>exec_Unmarshal\<close>: how \<open>encoding/json\<close> writes an
    \<open>ExecEnvironment\<close>, and reads one (not \<open>null\<close>) into the pointer the node holds;
  \<^item> \<open>exec_Exec\<close>, \<open>exec_ExecBao\<close>, \<open>exec_ExecVault\<close>: the three launchers, on the pointer
    \<open>n.Exec\<close>;
  \<^item> \<open>exec_Kill\<close>: what \<open>ExecEnvironment.Kill\<close> does with a handle that is not nil.
\<close>

record ('l, 's) collab =
  cfg_Validate :: "('l, 's) NodeConfig \<Rightarrow> error option"
  cfg_GetConnectAddr :: "('l, 's) NodeConfig \<Rightarrow> error + string \<times> bool"
  cfg_AddArgs :: "('l, 's) NodeConfig \<Rightarrow> string \<Rightarrow> error + string list"
  cfg_ToConfig :: "('l, 's) NodeConfig \<Rightarrow> string \<Rightarrow> error + string"
  cfg_MarshalJSON :: "('l, 's) NodeConfig \<Rightarrow> error + json"
  cfg_FromInterface ::
    "(string \<rightharpoonup> json) \<Rightarrow> ('l, 's) NodeConfig \<Rightarrow> (('l, 's) NodeConfig \<times> error option) outcome"
  exec_MarshalJSON :: "ExecEnvironment \<Rightarrow> json"
  exec_Unmarshal :: "json \<Rightarrow> ExecEnvironment option \<Rightarrow> ExecEnvironment option \<times> error option"
  exec_Exec :: "ExecEnvironment option \<Rightarrow> world \<Rightarrow> ExecEnvironment option \<times> world \<times> error option"
  exec_ExecBao :: "ExecEnvironment option \<Rightarrow> world \<Rightarrow> ExecEnvironment option \<times> world \<times> error option"
  exec_ExecVault :: "ExecEnvironment option \<Rightarrow> world \<Rightarrow> ExecEnvironment option \<times> world \<times> error option"
  exec_Kill :: "ExecEnvironment \<Rightarrow> world \<Rightarrow> ExecEnvironment \<times> world \<times> error option"

section \<open>Directories and persistence\<close>

definition NODE_JSON_NAME :: string where
  "NODE_JSON_NAME = ''node.json''"

definition INSTANCE_CONFIG_NAME :: string where
  "INSTANCE_CONFIG_NAME = ''config.hcl''"

text \<open>
  \<open>NodeBaseDirectory\<close> drops the error of \<open>user.Current()\<close> and reads \<open>usr.HomeDir\<close>: when
  the lookup fails, \<open>usr\<close> is nil and the read panics.
\<close>

definition NodeBaseDirectory :: "world \<Rightarrow> string outcome" where
  "NodeBaseDirectory w =
     (case home w of
        None \<Rightarrow> Panic ''invalid memory address or nil pointer dereference''
      | Some dir \<Rightarrow> Done (filepath_Join [dir, ''.local/share/devbao/nodes'']))"

definition GetDirectory :: "('l, 's) Node \<Rightarrow> world \<Rightarrow> string outcome" where
  "GetDirectory n w =
     (case NodeBaseDirectory w of
        Panic p \<Rightarrow> Panic p
      | Done base \<Rightarrow> Done (filepath_Join [base, Name n]))"




text \<open>
  What \<open>json.NewEncoder(configFile).Encode(n)\<close> writes. \<open>Node_fields\<close> is the value it
  encodes: the four tagged fields of \<open>Node\<close> in their order, a nil \<open>Exec\<close> as \<open>null\<close>.
  \<open>Node_MarshalJSON\<close> is the document written: the encoder writes every string as UTF-8.
\<close>

definition Node_fields :: "('l, 's) collab \<Rightarrow> ('l, 's) Node \<Rightarrow> error + json" where
  "Node_fields X n =
     (case cfg_MarshalJSON X (Config n) of
        Inl err \<Rightarrow> Inl err
      | Inr cj \<Rightarrow>
          Inr (JObject [(''name'', JString (Name n)),
                        (''type'', JString (Type n)),
                        (''exec'', (case Exec n of None \<Rightarrow> JNull | Some e \<Rightarrow> exec_MarshalJSON X e)),
                        (''config'', cj)]))"

definition Node_MarshalJSON :: "('l, 's) collab \<Rightarrow> ('l, 's) Node \<Rightarrow> error + json" where
  "Node_MarshalJSON X n =
     (case Node_fields X n of
        Inl err \<Rightarrow> Inl err
      | Inr j \<Rightarrow> Inr (json_utf8 j))"

definition SaveConfig ::
  "('l, 's) collab \<Rightarrow> ('l, 's) Node \<Rightarrow> world \<Rightarrow> (('l, 's) Node \<times> world \<times> error option) outcome" where
  "SaveConfig X n w =
     (case Validate (cfg_Validate X) n of
        (n1, Some err) \<Rightarrow>
          Done (n1, w, Some (Errorf ''failed validating config prior to saving: %w'' [] (Some err)))
      | (n1, None) \<Rightarrow>
          (case GetDirectory n1 w of
             Panic p \<Rightarrow> Panic p
           | Done directory \<Rightarrow>
               (let path = filepath_Join [directory, NODE_JSON_NAME] in
                case os_OpenFile path w of
                  (w1, Some err) \<Rightarrow>
                    Done (n1, w1, Some (Errorf ''failed to open config file (`%v`) for writing: %w''
                                          [ArgV path] (Some err)))
                | (w1, None) \<Rightarrow>
                    (case Node_MarshalJSON X n1 of
                       Inl err \<Rightarrow>
                         Done (n1, w1, Some (Errorf ''failed to marshal config: %w'' [] (Some err)))
                     | Inr j \<Rightarrow>
                         (case os_Write path (JsonText j) w1 of
                            (w2, Some err) \<Rightarrow>
                              Done (n1, w2, Some (Errorf ''failed to marshal config: %w'' [] (Some err)))
                          | (w2, None) \<Rightarrow> Done (n1, w2, None))))))"

definition SaveInstanceConfig ::
  "('l, 's) Node \<Rightarrow> string \<Rightarrow> world \<Rightarrow> (world \<times> (error + string)) outcome" where
  "SaveInstanceConfig n config w =
     (case GetDirectory n w of
        Panic p \<Rightarrow> Panic p
      | Done directory \<Rightarrow>
          (let path = filepath_Join [directory, INSTANCE_CONFIG_NAME] in
           case os_OpenFile path w of
             (w1, Some err) \<Rightarrow>
               Done (w1, Inl (Errorf ''failed to open instance config file (`%v`) for writing: %w''
                                [ArgV path] (Some err)))
           | (w1, None) \<Rightarrow>
               (case os_Write path (PlainText config) w1 of
                  (w2, Some err) \<Rightarrow>
                    Done (w2, Inl (Errorf ''failed to write instance config file (`%v`): %w''
                                     [ArgV path] (Some err)))
                | (w2, None) \<Rightarrow> Done (w2, Inr path))))"

section \<open>Lifecycle\<close>

definition buildExec ::
  "('l, 's) collab \<Rightarrow> ('l, 's) Node \<Rightarrow> world \<Rightarrow> (('l, 's) Node \<times> world \<times> error option) outcome" where
  "buildExec X n w =
     (case Validate (cfg_Validate X) n of
        (n1, Some err) \<Rightarrow>
          Done (n1, w, Some (Errorf ''failed to validate node definition: %w'' [] (Some err)))
      | (n1, None) \<Rightarrow>
     (case GetDirectory n1 w of
        Panic p \<Rightarrow> Panic p
      | Done directory \<Rightarrow>
     (case os_MkdirAll directory w of
        (w1, Some err) \<Rightarrow>
          Done (n1, w1, Some (Errorf ''failed to create node directory (%v): %w''
                                [ArgV directory] (Some err)))
      | (w1, None) \<Rightarrow>
     (case cfg_GetConnectAddr X (Config n1) of
        Inl err \<Rightarrow>
          Done (n1, w1, Some (Errorf ''failed to get connection address for node %v: %w''
                                [ArgV (Name n1)] (Some err)))
      | Inr (addr, isTls) \<Rightarrow>
     (case cfg_AddArgs X (Config n1) directory of
        Inl err \<Rightarrow>
          Done (n1, w1, Some (Errorf ''failed to build arguments to binary: %w'' [] (Some err)))
      | Inr args \<Rightarrow>
     (case (case cfg_ToConfig X (Config n1) directory of
              Inr config \<Rightarrow>
                if config = [] \<and> Dev (Config n1) = None then
                  Inl (Errorf ''expected non-dev server to have non-empty configuration; are listeners or storage missing'' [] None)
                else Inr config
            | Inl err \<Rightarrow> Inl err) of
        Inl err \<Rightarrow>
          Done (n1, w1, Some (Errorf ''failed to build node's configuration (%s): %w''
                                [ArgV (Name n1)] (Some err)))
      | Inr config \<Rightarrow>
     (case (if config \<noteq> [] then
              (case SaveInstanceConfig n1 config w1 of
                 Panic p \<Rightarrow> Panic p
               | Done (w2, Inl err) \<Rightarrow>
                   Done (w2, Inl (Errorf ''error persisting node configuration: %w'' [] (Some err)))
               | Done (w2, Inr path) \<Rightarrow> Done (w2, Inr (args @ [''-config='' @ path])))
            else Done (w1, Inr args)) of
        Panic p \<Rightarrow> Panic p
      | Done (w2, Inl err) \<Rightarrow> Done (n1, w2, Some err)
      | Done (w2, Inr args') \<Rightarrow>
          Done (n1\<lparr>Exec := Some \<lparr>Args = args', Directory = directory,
                                 ConnectAddress = addr, Pid = 0\<rparr>\<rparr>, w2, None))))))))"




definition Resume ::
  "('l, 's) collab \<Rightarrow> ('l, 's) Node \<Rightarrow> world \<Rightarrow> (('l, 's) Node \<times> world \<times> error option) outcome" where
  "Resume X n w =
     (case buildExec X n w of
        Panic p \<Rightarrow> Panic p
      | Done (n1, w1, Some err) \<Rightarrow>
          Done (n1, w1, Some (Errorf ''failed to build execution environment: %w'' [] (Some err)))
      | Done (n1, w1, None) \<Rightarrow>
          (case (if Type n1 = [] then exec_Exec X (Exec n1) w1
                 else if Type n1 = ''bao'' then exec_ExecBao X (Exec n1) w1
                 else if Type n1 = ''vault'' then exec_ExecVault X (Exec n1) w1
                 else (Exec n1, w1, Some (Errorf ''unknown execution type: `%s`'' [ArgV (Type n1)] None))) of
             (e1, w2, Some err) \<Rightarrow> Done (n1\<lparr>Exec := e1\<rparr>, w2, Some err)
           | (e1, w2, None) \<Rightarrow> SaveConfig X (n1\<lparr>Exec := e1\<rparr>) w2))"


section \<open>Collaborators outside \<open>node.go\<close>, modelled from the specification\<close>

text \<open>
  Modelled from the spec: the variants behind \<open>Listener\<close> and \<open>Storage\<close> are missing. A
  listener is "one network-reachable endpoint (address, TLS settings)", a storage "the
  durable backend", named by its kind as in \<open>Storage{kind:"file"}\<close>.
\<close>

datatype spec_Listener = SpecListener (address: string) (tls: bool)

datatype spec_Storage = SpecStorage (kind: string)

text \<open>
  Modelled from the spec: \<open>NodeConfig.Validate\<close> is missing. "Non-dev configs must have
  \<open>\<ge>\<close>1 listener and exactly 1 storage"; a configuration with a \<open>DevConfig\<close> "does not
  require explicit listeners/storage".
\<close>

definition spec_NodeConfig_Validate :: "('l, 's) NodeConfig \<Rightarrow> error option" where
  "spec_NodeConfig_Validate c =
     (if Dev c \<noteq> None then None
      else if Listeners c = [] then Some (Errorf ''missing listener'' [] None)
      else if Storage c = None then Some (Errorf ''missing storage'' [] None)
      else None)"

text \<open>
  Modelled from the spec: \<open>NodeConfig.GetConnectAddr\<close> is missing. "Dev mode synthesizes a
  fixed local address; non-dev mode reads it from the primary listener." The fixed address
  is the parameter \<open>devaddr\<close>.
\<close>

definition spec_NodeConfig_GetConnectAddr ::
  "string \<Rightarrow> (spec_Listener, 's) NodeConfig \<Rightarrow> error + string \<times> bool" where
  "spec_NodeConfig_GetConnectAddr devaddr c =
     (if Dev c \<noteq> None then Inr (devaddr, False)
      else (case Listeners c of
              [] \<Rightarrow> Inl (Errorf ''no listener to connect to'' [] None)
            | l # _ \<Rightarrow> Inr (address l, tls l)))"

text \<open>
  Modelled from the spec: the derivations \<open>NodeConfig.AddArgs\<close> and \<open>NodeConfig.ToConfig\<close>
  are missing. The arguments are "product-specific flags, paths rooted at the node
  directory"; the configuration body "for dev mode is intentionally empty" and otherwise
  is text made from the listeners and the storage.
\<close>

definition spec_NodeConfig_AddArgs ::
  "(spec_Listener, spec_Storage) NodeConfig \<Rightarrow> string \<Rightarrow> error + string list" where
  "spec_NodeConfig_AddArgs c directory =
     Inr (if Dev c \<noteq> None then [''server'', ''-dev''] else [''server''])"

definition spec_NodeConfig_ToConfig ::
  "(spec_Listener, spec_Storage) NodeConfig \<Rightarrow> string \<Rightarrow> error + string" where
  "spec_NodeConfig_ToConfig c directory =
     Inr (if Dev c \<noteq> None then []
          else concat (map (\<lambda>l. ''listener '' @ address l @ ''; '') (Listeners c)) @
               (case Storage c of
                  None \<Rightarrow> []
                | Some s \<Rightarrow> ''storage '' @ kind s @ '' '' @ directory))"

text \<open>
  Modelled from the spec: the serialization of the snapshot's parts is missing. The
  snapshot's \<open>config\<close> is an "object containing \<open>listeners\<close>: ordered array, \<open>storage\<close>:
  object or absent, \<open>dev\<close>: object or absent"; the decoder reads it "into a generic
  structural form first" and then reconstructs "the concrete variant for \<open>storage\<close> and each
  \<open>listener\<close> entry (dev config and top-level fields decode directly)". How one listener
  and one storage are written and read is left to the parameters \<open>lenc\<close>, \<open>ldec\<close>, \<open>senc\<close>
  and \<open>sdec\<close>.
\<close>

fun decode_all :: "(json \<Rightarrow> error + 'a) \<Rightarrow> json list \<Rightarrow> error + 'a list" where
  "decode_all dec [] = Inr []"
| "decode_all dec (j # js) =
     (case dec j of
        Inl err \<Rightarrow> Inl err
      | Inr x \<Rightarrow> (case decode_all dec js of Inl err \<Rightarrow> Inl err | Inr xs \<Rightarrow> Inr (x # xs)))"

definition spec_DevConfig_MarshalJSON :: "DevConfig \<Rightarrow> json" where
  "spec_DevConfig_MarshalJSON d = JObject [(''token'', JString (Token d))]"

definition spec_DevConfig_Unmarshal :: "json \<Rightarrow> error + DevConfig" where
  "spec_DevConfig_Unmarshal j =
     (case j of
        JObject kvs \<Rightarrow>
          (case map_of (rev kvs) ''token'' of
             None \<Rightarrow> Inr \<lparr>Token = []\<rparr>
           | Some (JString t) \<Rightarrow> Inr \<lparr>Token = t\<rparr>
           | Some _ \<Rightarrow> Inl (Errorf ''json: cannot unmarshal into Go struct field DevConfig.token'' [] None))
      | _ \<Rightarrow> Inl (Errorf ''json: cannot unmarshal into Go value of type DevConfig'' [] None))"

definition spec_NodeConfig_MarshalJSON ::
  "('l \<Rightarrow> json) \<Rightarrow> ('s \<Rightarrow> json) \<Rightarrow> ('l, 's) NodeConfig \<Rightarrow> error + json" where
  "spec_NodeConfig_MarshalJSON lenc senc c =
     Inr (JObject
       ([(''listeners'', JArray (map lenc (Listeners c)))] @
        (case Storage c of None \<Rightarrow> [] | Some s \<Rightarrow> [(''storage'', senc s)]) @
        (case Dev c of None \<Rightarrow> [] | Some d \<Rightarrow> [(''dev'', spec_DevConfig_MarshalJSON d)])))"

definition spec_NodeConfig_FromInterface ::
  "(json \<Rightarrow> error + 'l) \<Rightarrow> (json \<Rightarrow> error + 's) \<Rightarrow> (string \<rightharpoonup> json) \<Rightarrow> ('l, 's) NodeConfig
     \<Rightarrow> (('l, 's) NodeConfig \<times> error option) outcome" where
  "spec_NodeConfig_FromInterface ldec sdec iface c =
     (case (case iface ''listeners'' of
              None \<Rightarrow> Inr []
            | Some JNull \<Rightarrow> Inr []
            | Some (JArray js) \<Rightarrow> decode_all ldec js
            | Some _ \<Rightarrow> Inl (Errorf ''listeners: expected an array'' [] None)) of
        Inl err \<Rightarrow> Done (c, Some err)
      | Inr ls \<Rightarrow>
     (case (case iface ''storage'' of
              None \<Rightarrow> Inr None
            | Some j \<Rightarrow>
                if j = JNull then Inr None
                else (case sdec j of Inl err \<Rightarrow> Inl err | Inr s \<Rightarrow> Inr (Some s))) of
        Inl err \<Rightarrow> Done (c, Some err)
      | Inr st \<Rightarrow>
     (case (case iface ''dev'' of
              None \<Rightarrow> Inr None
            | Some j \<Rightarrow>
                if j = JNull then Inr None
                else (case spec_DevConfig_Unmarshal j of Inl err \<Rightarrow> Inl err | Inr d \<Rightarrow> Inr (Some d))) of
        Inl err \<Rightarrow> Done (c, Some err)
      | Inr dv \<Rightarrow> Done (\<lparr>Listeners = ls, Storage = st, Dev = dv\<rparr>, None))))"

text \<open>
  Modelled from the spec: how the listener and the storage modelled above are written and
  read is missing. The decoder is to "inspect a discriminator field, then deserialize into
  the concrete variant": a listener carries its type, its address and its TLS flag, a
  storage its kind.
\<close>

definition spec_Listener_MarshalJSON :: "spec_Listener \<Rightarrow> json" where
  "spec_Listener_MarshalJSON l =
     JObject [(''type'', JString ''tcp''), (''address'', JString (address l)), (''tls'', JBool (tls l))]"

definition spec_Listener_Unmarshal :: "json \<Rightarrow> error + spec_Listener" where
  "spec_Listener_Unmarshal j =
     (case j of
        JObject kvs \<Rightarrow>
          (case (map_of (rev kvs) ''type'', map_of (rev kvs) ''address'', map_of (rev kvs) ''tls'') of
             (Some (JString ty), Some (JString a), Some (JBool t)) \<Rightarrow>
               if ty = ''tcp'' then Inr (SpecListener a t)
               else Inl (Errorf ''unknown listener type: %v'' [ArgV ty] None)
           | _ \<Rightarrow> Inl (Errorf ''malformed listener'' [] None))
      | _ \<Rightarrow> Inl (Errorf ''malformed listener'' [] None))"

definition spec_Storage_MarshalJSON :: "spec_Storage \<Rightarrow> json" where
  "spec_Storage_MarshalJSON s = JObject [(''kind'', JString (kind s))]"

definition spec_Storage_Unmarshal :: "json \<Rightarrow> error + spec_Storage" where
  "spec_Storage_Unmarshal j =
     (case j of
        JObject kvs \<Rightarrow>
          (case map_of (rev kvs) ''kind'' of
             Some (JString k) \<Rightarrow> Inr (SpecStorage k)
           | _ \<Rightarrow> Inl (Errorf ''malformed storage'' [] None))
      | _ \<Rightarrow> Inl (Errorf ''malformed storage'' [] None))"

text \<open>
  Modelled from the spec: the declaration of \<open>ExecEnvironment\<close> is missing, and with it the
  names of its fields in the snapshot. They are taken from the data model: \<open>args\<close>,
  \<open>directory\<close>, \<open>connectAddress\<close>, \<open>pid\<close>. \<open>encoding/json\<close> reads an object into the
  struct the pointer holds, or into a new zero struct when the pointer is nil: a field
  that is absent or \<open>null\<close> is left as it was, a field of the wrong type (for \<open>pid\<close>: not
  a 64-bit integer) is left as it was and is an error, the first of which is returned.
  Anything but an object is an error. Field names are matched as they are written.
\<close>

definition json_string :: "json \<Rightarrow> error + string" where
  "json_string j =
     (case j of
        JString s \<Rightarrow> Inr s
      | _ \<Rightarrow> Inl (Errorf ''json: cannot unmarshal into Go value of type string'' [] None))"

definition spec_Exec_MarshalJSON :: "ExecEnvironment \<Rightarrow> json" where
  "spec_Exec_MarshalJSON e =
     JObject [(''args'', JArray (map JString (Args e))),
              (''directory'', JString (Directory e)),
              (''connectAddress'', JString (ConnectAddress e)),
              (''pid'', JNumber (Pid e))]"

definition read_field ::
  "string \<Rightarrow> json option \<Rightarrow> (json \<Rightarrow> (ExecEnvironment \<Rightarrow> ExecEnvironment) option)
     \<Rightarrow> ExecEnvironment \<times> error option \<Rightarrow> ExecEnvironment \<times> error option" where
  "read_field name v dec acc =
     (case acc of
        (e, err) \<Rightarrow>
          (case v of
             None \<Rightarrow> (e, err)
           | Some j \<Rightarrow>
               if j = JNull then (e, err)
               else
                 (case dec j of
                    Some upd \<Rightarrow> (upd e, err)
                  | None \<Rightarrow>
                      (e, (case err of
                             None \<Rightarrow>
                               Some (Errorf ''json: cannot unmarshal into Go struct field ExecEnvironment.%v''
                                       [ArgV name] None)
                           | Some first \<Rightarrow> Some first)))))"

definition read_args :: "json \<Rightarrow> (ExecEnvironment \<Rightarrow> ExecEnvironment) option" where
  "read_args j =
     (case j of
        JArray js \<Rightarrow>
          (case decode_all json_string js of
             Inl err \<Rightarrow> None
           | Inr as \<Rightarrow> Some (\<lambda>e. e\<lparr>Args := as\<rparr>))
      | _ \<Rightarrow> None)"

definition read_directory :: "json \<Rightarrow> (ExecEnvironment \<Rightarrow> ExecEnvironment) option" where
  "read_directory j = (case j of JString d \<Rightarrow> Some (\<lambda>e. e\<lparr>Directory := d\<rparr>) | _ \<Rightarrow> None)"

definition read_connectAddress :: "json \<Rightarrow> (ExecEnvironment \<Rightarrow> ExecEnvironment) option" where
  "read_connectAddress j =
     (case j of JString a \<Rightarrow> Some (\<lambda>e. e\<lparr>ConnectAddress := a\<rparr>) | _ \<Rightarrow> None)"

definition read_pid :: "json \<Rightarrow> (ExecEnvironment \<Rightarrow> ExecEnvironment) option" where
  "read_pid j =
     (case j of
        JNumber p \<Rightarrow>
          if - (2 ^ 63) \<le> p \<and> p < 2 ^ 63 then Some (\<lambda>e. e\<lparr>Pid := p\<rparr>) else None
      | _ \<Rightarrow> None)"

definition spec_Exec_Unmarshal ::
  "json \<Rightarrow> ExecEnvironment option \<Rightarrow> ExecEnvironment option \<times> error option" where
  "spec_Exec_Unmarshal j old =
     (case j of
        JObject kvs \<Rightarrow>
          (let m = map_of (rev kvs);
               e0 = (case old of
                       None \<Rightarrow> \<lparr>Args = [], Directory = [], ConnectAddress = [], Pid = 0\<rparr>
                     | Some e \<Rightarrow> e)
           in case read_field ''pid'' (m ''pid'') read_pid
                     (read_field ''directory'' (m ''directory'') read_directory
                       (read_field ''connectAddress'' (m ''connectAddress'') read_connectAddress
                         (read_field ''args'' (m ''args'') read_args (e0, None)))) of
                (e1, err) \<Rightarrow> (Some e1, err))
      | _ \<Rightarrow>
          (old, Some (Errorf ''json: cannot unmarshal into Go value of type ExecEnvironment'' [] None)))"

text \<open>
  Modelled from the spec: the launchers and \<open>ExecEnvironment.Kill\<close> are missing. A launch
  records "the live process identity" in the handle; here every launch gets the process
  identifier \<open>pid\<close>. A kill through a handle whose \<open>pid\<close> is 0 ("not currently running from
  this handle") fails; any other kill succeeds.
\<close>

definition spec_launch ::
  "int \<Rightarrow> ExecEnvironment option \<Rightarrow> world \<Rightarrow> ExecEnvironment option \<times> world \<times> error option" where
  "spec_launch pid p w = (map_option (\<lambda>e. e\<lparr>Pid := pid\<rparr>) p, w, None)"

definition spec_exec_Kill :: "ExecEnvironment \<Rightarrow> world \<Rightarrow> ExecEnvironment \<times> world \<times> error option" where
  "spec_exec_Kill e w =
     (e, w, if Pid e = 0 then Some (Errorf ''no running process'' [] None) else None)"

text \<open>
  Modelled from the spec: the missing collaborators together, as modelled above, on the
  listeners and storages modelled above. The fixed local address of dev mode and the
  process identifier of a launch are arbitrary.
\<close>

definition spec_collab :: "(spec_Listener, spec_Storage) collab" where
  "spec_collab =
     \<lparr>cfg_Validate = spec_NodeConfig_Validate,
      cfg_GetConnectAddr = spec_NodeConfig_GetConnectAddr ''127.0.0.1:8200'',
      cfg_AddArgs = spec_NodeConfig_AddArgs,
      cfg_ToConfig = spec_NodeConfig_ToConfig,
      cfg_MarshalJSON = spec_NodeConfig_MarshalJSON spec_Listener_MarshalJSON spec_Storage_MarshalJSON,
      cfg_FromInterface = spec_NodeConfig_FromInterface spec_Listener_Unmarshal spec_Storage_Unmarshal,
      exec_MarshalJSON = spec_Exec_MarshalJSON,
      exec_Unmarshal = spec_Exec_Unmarshal,
      exec_Exec = spec_launch 4242,
      exec_ExecBao = spec_launch 4242,
      exec_ExecVault = spec_launch 4242,
      exec_Kill = spec_exec_Kill\<rparr>"

text \<open>
  A world to run the model in: a home directory with nothing under it, where no system
  call fails for outside reasons. And two nodes: one in dev mode, one with two listeners
  and a storage.
\<close>

definition ex_world :: world where
  "ex_world = \<lparr>home = Some ''/home/u'', dirs = {}, files = Map.empty, oserr = (\<lambda>op. None)\<rparr>"

definition ex_dev_node :: "(spec_Listener, spec_Storage) Node" where
  "ex_dev_node =
     \<lparr>Name = ''n1'', Type = ''bao'', Exec = None,
      Config = \<lparr>Listeners = [], Storage = None, Dev = Some \<lparr>Token = []\<rparr>\<rparr>\<rparr>"

definition ex_prod_node :: "(spec_Listener, spec_Storage) Node" where
  "ex_prod_node =
     \<lparr>Name = ''n2'', Type = ''vault'', Exec = None,
      Config = \<lparr>Listeners = [SpecListener ''127.0.0.1:8200'' False,
                              SpecListener ''127.0.0.1:8300'' True],
                 Storage = Some (SpecStorage ''file''), Dev = None\<rparr>\<rparr>"

text \<open>
  The variable-name prefix of each product's own client, for the comparison with \<open>GetEnv\<close>:
  OpenBao's client reads \<open>BAO_ADDR\<close> and \<open>BAO_TOKEN\<close>, HashiCorp Vault's reads
  \<open>VAULT_ADDR\<close> and \<open>VAULT_TOKEN\<close>.
\<close>

definition product_prefix :: "string \<Rightarrow> string" where
  "product_prefix ty = (if ty = ''bao'' then ''BAO_'' else ''VAULT_'')"

section \<open>Validation and construction: properties\<close>

lemma Validate_fst [simp]:
  "Exec (fst (Validate cv n)) = Exec n"
  "Config (fst (Validate cv n)) = Config n"
  "Type (fst (Validate cv n)) = Type n"
  "Name (fst (Validate cv n)) \<noteq> []"
  by (simp_all add: Validate_def Let_def)

lemma Validate_named: "Name n \<noteq> [] \<Longrightarrow> fst (Validate cv n) = n"
  by (simp add: Validate_def Let_def)

lemma Validate_snd:
  "snd (Validate cv n) =
     (if Type n \<noteq> [] \<and> Type n \<noteq> ''bao'' \<and> Type n \<noteq> ''vault'' then
        Some (Errorf ''invalid node type (`%s`): expected either empty (``), OpenBao (`bao`), or HashiCorp Vault (`vault`)''
                [ArgV (Type n)] None)
      else cv (Config n))"
  by (simp add: Validate_def Let_def)

lemma Validate_ok_iff:
  "snd (Validate cv n) = None \<longleftrightarrow> (Type n = [] \<or> Type n = ''bao'' \<or> Type n = ''vault'') \<and> cv (Config n) = None"
  by (auto simp: Validate_def Let_def)

text \<open>
  Claim C2. On a node with an empty name, \<open>Validate\<close> sets the name to \<open>dev\<close> when the
  configuration has no \<open>DevConfig\<close> and to \<open>prod\<close> when it has one; and \<open>Validate\<close>
  returns an error for every type other than the empty string, \<open>bao\<close> and \<open>vault\<close>.
\<close>

theorem Validate_defaults_name_rejects_type:
  "(Name n = [] \<longrightarrow>
      Name (fst (Validate cv n)) = (if Dev (Config n) = None then ''dev'' else ''prod'')) \<and>
   (Type n \<notin> {[], ''bao'', ''vault''} \<longrightarrow> snd (Validate cv n) \<noteq> None)"
  by (simp add: Validate_def Let_def)

theorem Validate_defaults_name_rejects_type_witness:
  "Name (fst (Validate spec_NodeConfig_Validate
       \<lparr>Name = [], Type = ''bao'', Exec = None,
        Config = \<lparr>Listeners = [SpecListener ''127.0.0.1:8200'' False],
                   Storage = Some (SpecStorage ''file''), Dev = None\<rparr>\<rparr>)) = ''dev'' \<and>
   Name (fst (Validate spec_NodeConfig_Validate
       \<lparr>Name = [], Type = [], Exec = None,
        Config = \<lparr>Listeners = ([] :: spec_Listener list), Storage = (None :: spec_Storage option),
                   Dev = Some \<lparr>Token = []\<rparr>\<rparr>\<rparr>)) = ''prod'' \<and>
   snd (Validate spec_NodeConfig_Validate
       \<lparr>Name = ''n1'', Type = ''consul'', Exec = None,
        Config = \<lparr>Listeners = ([] :: spec_Listener list), Storage = (None :: spec_Storage option),
                   Dev = Some \<lparr>Token = []\<rparr>\<rparr>\<rparr>) \<noteq> None"
  using
    Validate_defaults_name_rejects_type [of
      "\<lparr>Name = [], Type = ''bao'', Exec = None,
        Config = \<lparr>Listeners = [SpecListener ''127.0.0.1:8200'' False],
                   Storage = Some (SpecStorage ''file''), Dev = None\<rparr>\<rparr>" spec_NodeConfig_Validate]
    Validate_defaults_name_rejects_type [of
      "\<lparr>Name = [], Type = [], Exec = None,
        Config = \<lparr>Listeners = ([] :: spec_Listener list), Storage = (None :: spec_Storage option),
                   Dev = Some \<lparr>Token = []\<rparr>\<rparr>\<rparr>" spec_NodeConfig_Validate]
    Validate_defaults_name_rejects_type [of
      "\<lparr>Name = ''n1'', Type = ''consul'', Exec = None,
        Config = \<lparr>Listeners = ([] :: spec_Listener list), Storage = (None :: spec_Storage option),
                   Dev = Some \<lparr>Token = []\<rparr>\<rparr>\<rparr>" spec_NodeConfig_Validate]
  by simp

text \<open>
  Claim C7. A second call of \<open>Validate\<close> returns what the first returned and leaves the
  node as the first call left it; and a node whose name is set is not changed by
  \<open>Validate\<close> at all. (The one write of \<open>Validate\<close> is the default name of a node with an
  empty name, claim C2.)
\<close>

theorem Validate_idempotent:
  "snd (Validate cv (fst (Validate cv n))) = snd (Validate cv n) \<and>
   fst (Validate cv (fst (Validate cv n))) = fst (Validate cv n) \<and>
   (Name n \<noteq> [] \<longrightarrow> fst (Validate cv n) = n)"
proof (intro conjI impI)
  show "snd (Validate cv (fst (Validate cv n))) = snd (Validate cv n)"
    by (simp only: Validate_snd Validate_fst)
  show "fst (Validate cv (fst (Validate cv n))) = fst (Validate cv n)"
    by (rule Validate_named) (rule Validate_fst)
  show "fst (Validate cv n) = n" if "Name n \<noteq> []"
    using that by (rule Validate_named)
qed

theorem Validate_idempotent_witness:
  "Name \<lparr>Name = ''n1'', Type = ''vault'', Exec = None,
         Config = \<lparr>Listeners = [SpecListener ''127.0.0.1:8200'' True],
                    Storage = Some (SpecStorage ''raft''), Dev = None\<rparr>\<rparr> \<noteq> [] \<and>
   Validate spec_NodeConfig_Validate
     \<lparr>Name = ''n1'', Type = ''vault'', Exec = None,
      Config = \<lparr>Listeners = [SpecListener ''127.0.0.1:8200'' True],
                 Storage = Some (SpecStorage ''raft''), Dev = None\<rparr>\<rparr> =
     (\<lparr>Name = ''n1'', Type = ''vault'', Exec = None,
       Config = \<lparr>Listeners = [SpecListener ''127.0.0.1:8200'' True],
                  Storage = Some (SpecStorage ''raft''), Dev = None\<rparr>\<rparr>, None)"
  using Validate_idempotent [of spec_NodeConfig_Validate
      "\<lparr>Name = ''n1'', Type = ''vault'', Exec = None,
        Config = \<lparr>Listeners = [SpecListener ''127.0.0.1:8200'' True],
                   Storage = Some (SpecStorage ''raft''), Dev = None\<rparr>\<rparr>"]
  by (simp add: Validate_def spec_NodeConfig_Validate_def)

lemma classify_recognized:
  "list_all recognized opts \<Longrightarrow>
   classify i opts c =
     Inr \<lparr>Listeners = Listeners c @ listener_opts opts,
          Storage = last (Storage c # map Some (storage_opts opts)),
          Dev = last (Dev c # dev_opts opts)\<rparr>"
proof (induction opts arbitrary: i c)
  case Nil
  then show ?case by simp
next
  case (Cons opt opts)
  then show ?case by (cases opt) simp_all
qed

lemma classify_step:
  "recognized opt \<Longrightarrow> \<exists>c'. classify i (opt # opts) c = classify (Suc i) opts c'"
  by (cases opt) auto

lemma classify_unrecognized:
  "\<not> list_all recognized opts \<Longrightarrow>
   \<exists>k v t. k < length opts \<and> opts ! k = OptOther v t \<and> list_all recognized (take k opts) \<and>
     classify i opts c =
       Inl (Errorf ''unknown type of node configuration option at index %d: %v (%T)''
              [ArgD (i + k), ArgV v, ArgV t] None)"
proof (induction opts arbitrary: i c)
  case Nil
  then show ?case by simp
next
  case (Cons opt opts)
  show ?case
  proof (cases "recognized opt")
    case False
    then obtain v t where "opt = OptOther v t"
      by (cases opt) auto
    then have "0 < length (opt # opts) \<and> (opt # opts) ! 0 = OptOther v t \<and>
       list_all recognized (take 0 (opt # opts)) \<and>
       classify i (opt # opts) c =
         Inl (Errorf ''unknown type of node configuration option at index %d: %v (%T)''
                [ArgD (i + 0), ArgV v, ArgV t] None)"
      by simp
    then show ?thesis by blast
  next
    case True
    with Cons.prems have rest: "\<not> list_all recognized opts"
      by simp
    from classify_step [OF True] obtain c' where
      step: "classify i (opt # opts) c = classify (Suc i) opts c'"
      by blast
    from Cons.IH [OF rest, of "Suc i" c'] obtain k v t where
      "k < length opts" "opts ! k = OptOther v t" "list_all recognized (take k opts)"
      "classify (Suc i) opts c' =
         Inl (Errorf ''unknown type of node configuration option at index %d: %v (%T)''
                [ArgD (Suc i + k), ArgV v, ArgV t] None)"
      by blast
    with True step have "Suc k < length (opt # opts) \<and> (opt # opts) ! Suc k = OptOther v t \<and>
       list_all recognized (take (Suc k) (opt # opts)) \<and>
       classify i (opt # opts) c =
         Inl (Errorf ''unknown type of node configuration option at index %d: %v (%T)''
                [ArgD (i + Suc k), ArgV v, ArgV t] None)"
      by simp
    then show ?thesis by blast
  qed
qed

text \<open>
  Claim C6. When some option is of no recognized variant, \<open>BuildNode\<close> fails and its error
  carries the position \<open>i\<close> of such an option, the first one: every option before \<open>i\<close> is
  recognized, and the error prints \<open>i\<close> and the option. When every option is recognized,
  the configuration handed to \<open>Validate\<close> has the listeners in the order given, the last
  storage and the last \<open>*DevConfig\<close>, and \<open>BuildNode\<close> returns what \<open>Validate\<close> returns.
\<close>

theorem BuildNode_classifies_options:
  "(\<not> list_all recognized opts \<longrightarrow>
      (\<exists>i v t. i < length opts \<and> opts ! i = OptOther v t \<and> list_all recognized (take i opts) \<and>
         BuildNode cv name product opts =
           Inl (Errorf ''unknown type of node configuration option at index %d: %v (%T)''
                  [ArgD i, ArgV v, ArgV t] None))) \<and>
   (list_all recognized opts \<longrightarrow>
      BuildNode cv name product opts =
        (case Validate cv
                \<lparr>Name = name, Type = product, Exec = None,
                 Config = \<lparr>Listeners = listener_opts opts,
                            Storage = (if storage_opts opts = [] then None
                                       else Some (last (storage_opts opts))),
                            Dev = (if dev_opts opts = [] then None else last (dev_opts opts))\<rparr>\<rparr> of
           (n, Some err) \<Rightarrow> Inl (Errorf ''invalid node configuration: %w'' [] (Some err))
         | (n, None) \<Rightarrow> Inr n))"
proof (intro conjI impI)
  assume "\<not> list_all recognized opts"
  from classify_unrecognized [OF this, of 0 zero_NodeConfig]
  show "\<exists>i v t. i < length opts \<and> opts ! i = OptOther v t \<and> list_all recognized (take i opts) \<and>
         BuildNode cv name product opts =
           Inl (Errorf ''unknown type of node configuration option at index %d: %v (%T)''
                  [ArgD i, ArgV v, ArgV t] None)"
    by (auto simp: BuildNode_def)
next
  assume r: "list_all recognized opts"
  have "last (None # map Some (storage_opts opts)) =
          (if storage_opts opts = [] then None else Some (last (storage_opts opts)))"
    by (simp add: last_map)
  moreover have "last (None # dev_opts opts) =
          (if dev_opts opts = [] then None else last (dev_opts opts))"
    by simp
  ultimately show "BuildNode cv name product opts =
        (case Validate cv
                \<lparr>Name = name, Type = product, Exec = None,
                 Config = \<lparr>Listeners = listener_opts opts,
                            Storage = (if storage_opts opts = [] then None
                                       else Some (last (storage_opts opts))),
                            Dev = (if dev_opts opts = [] then None else last (dev_opts opts))\<rparr>\<rparr> of
           (n, Some err) \<Rightarrow> Inl (Errorf ''invalid node configuration: %w'' [] (Some err))
         | (n, None) \<Rightarrow> Inr n)"
    using classify_recognized [OF r, of 0 zero_NodeConfig]
    by (simp add: BuildNode_def zero_NodeConfig_def)
qed

theorem BuildNode_classifies_options_witness:
  "\<not> list_all recognized
       [OptListener (SpecListener ''127.0.0.1:8200'' False), OptOther ''7'' ''int'',
        OptStorage (SpecStorage ''file''), OptOther ''<nil>'' ''<nil>''] \<and>
   BuildNode spec_NodeConfig_Validate ''n1'' ''bao''
       [OptListener (SpecListener ''127.0.0.1:8200'' False), OptOther ''7'' ''int'',
        OptStorage (SpecStorage ''file''), OptOther ''<nil>'' ''<nil>''] =
     Inl (Errorf ''unknown type of node configuration option at index %d: %v (%T)''
            [ArgD 1, ArgV ''7'', ArgV ''int''] None) \<and>
   list_all recognized
       [OptListener (SpecListener ''127.0.0.1:8200'' False), OptStorage (SpecStorage ''file''),
        OptListener (SpecListener ''127.0.0.1:8300'' True), OptStorage (SpecStorage ''raft''),
        OptDev (Some \<lparr>Token = ''t0''\<rparr>), OptDev (Some \<lparr>Token = ''t1''\<rparr>)] \<and>
   BuildNode spec_NodeConfig_Validate ''n1'' ''bao''
       [OptListener (SpecListener ''127.0.0.1:8200'' False), OptStorage (SpecStorage ''file''),
        OptListener (SpecListener ''127.0.0.1:8300'' True), OptStorage (SpecStorage ''raft''),
        OptDev (Some \<lparr>Token = ''t0''\<rparr>), OptDev (Some \<lparr>Token = ''t1''\<rparr>)] =
     Inr \<lparr>Name = ''n1'', Type = ''bao'', Exec = None,
          Config = \<lparr>Listeners = [SpecListener ''127.0.0.1:8200'' False,
                                  SpecListener ''127.0.0.1:8300'' True],
                     Storage = Some (SpecStorage ''raft''),
                     Dev = Some \<lparr>Token = ''t1''\<rparr>\<rparr>\<rparr>"
proof -
  have a: "\<not> list_all recognized
       [OptListener (SpecListener ''127.0.0.1:8200'' False), OptOther ''7'' ''int'',
        OptStorage (SpecStorage ''file''), OptOther ''<nil>'' ''<nil>'']"
    by simp
  have b: "list_all recognized
       [OptListener (SpecListener ''127.0.0.1:8200'' False), OptStorage (SpecStorage ''file''),
        OptListener (SpecListener ''127.0.0.1:8300'' True), OptStorage (SpecStorage ''raft''),
        OptDev (Some \<lparr>Token = ''t0''\<rparr>), OptDev (Some \<lparr>Token = ''t1''\<rparr>)]"
    by simp
  have c: "BuildNode spec_NodeConfig_Validate ''n1'' ''bao''
       [OptListener (SpecListener ''127.0.0.1:8200'' False), OptOther ''7'' ''int'',
        OptStorage (SpecStorage ''file''), OptOther ''<nil>'' ''<nil>''] =
     Inl (Errorf ''unknown type of node configuration option at index %d: %v (%T)''
            [ArgD 1, ArgV ''7'', ArgV ''int''] None)"
    by (simp add: BuildNode_def)
  have d: "BuildNode spec_NodeConfig_Validate ''n1'' ''bao''
       [OptListener (SpecListener ''127.0.0.1:8200'' False), OptStorage (SpecStorage ''file''),
        OptListener (SpecListener ''127.0.0.1:8300'' True), OptStorage (SpecStorage ''raft''),
        OptDev (Some \<lparr>Token = ''t0''\<rparr>), OptDev (Some \<lparr>Token = ''t1''\<rparr>)] =
     Inr \<lparr>Name = ''n1'', Type = ''bao'', Exec = None,
          Config = \<lparr>Listeners = [SpecListener ''127.0.0.1:8200'' False,
                                  SpecListener ''127.0.0.1:8300'' True],
                     Storage = Some (SpecStorage ''raft''),
                     Dev = Some \<lparr>Token = ''t1''\<rparr>\<rparr>\<rparr>"
    using b BuildNode_classifies_options [of
       "[OptListener (SpecListener ''127.0.0.1:8200'' False), OptStorage (SpecStorage ''file''),
        OptListener (SpecListener ''127.0.0.1:8300'' True), OptStorage (SpecStorage ''raft''),
        OptDev (Some \<lparr>Token = ''t0''\<rparr>), OptDev (Some \<lparr>Token = ''t1''\<rparr>)]"
       spec_NodeConfig_Validate "''n1''" "''bao''"]
    by (simp add: Validate_def spec_NodeConfig_Validate_def)
  from a b c d show ?thesis by blast
qed

text \<open>
  Claim C1, as amended. \<open>BuildNode\<close> on an empty name, an empty type and the one option
  \<open>&DevConfig{}\<close>, with a \<open>NodeConfig.Validate\<close> that accepts the configuration holding
  only that \<open>DevConfig\<close>: validation succeeds, the node's name is \<open>prod\<close> (the default of
  \<open>Validate\<close> for a node with a \<open>DevConfig\<close>), and \<open>GetToken\<close> returns \<open>devroot\<close>.
\<close>

theorem BuildNode_dev_scenario:
  "cv \<lparr>Listeners = [], Storage = None, Dev = Some \<lparr>Token = []\<rparr>\<rparr> = None \<Longrightarrow>
   BuildNode cv [] [] [OptDev (Some \<lparr>Token = []\<rparr>)] =
     Inr \<lparr>Name = ''prod'', Type = [], Exec = None,
          Config = \<lparr>Listeners = [], Storage = None, Dev = Some \<lparr>Token = []\<rparr>\<rparr>\<rparr> \<and>
   GetToken \<lparr>Name = ''prod'', Type = [], Exec = None,
             Config = \<lparr>Listeners = [], Storage = None, Dev = Some \<lparr>Token = []\<rparr>\<rparr>\<rparr> = Inr ''devroot''"
  by (simp add: BuildNode_def Validate_def zero_NodeConfig_def GetToken_def)

theorem BuildNode_dev_scenario_witness:
  "spec_NodeConfig_Validate
     \<lparr>Listeners = ([] :: spec_Listener list), Storage = (None :: spec_Storage option),
      Dev = Some \<lparr>Token = []\<rparr>\<rparr> = None \<and>
   BuildNode spec_NodeConfig_Validate [] [] [OptDev (Some \<lparr>Token = []\<rparr>)] =
     Inr \<lparr>Name = ''prod'', Type = [], Exec = None,
          Config = \<lparr>Listeners = ([] :: spec_Listener list), Storage = (None :: spec_Storage option),
                     Dev = Some \<lparr>Token = []\<rparr>\<rparr>\<rparr>"
proof -
  have h: "spec_NodeConfig_Validate
     \<lparr>Listeners = ([] :: spec_Listener list), Storage = (None :: spec_Storage option),
      Dev = Some \<lparr>Token = []\<rparr>\<rparr> = None"
    by (simp add: spec_NodeConfig_Validate_def)
  from h BuildNode_dev_scenario
    [of "spec_NodeConfig_Validate :: (spec_Listener, spec_Storage) NodeConfig \<Rightarrow> error option"]
  show ?thesis by blast
qed

text \<open>
  The claim as written fails at its own input: the node \<open>BuildNode\<close> returns there is not
  named \<open>dev\<close>.
\<close>

theorem BuildNode_dev_scenario_counterexample:
  "\<not> (\<exists>n :: (spec_Listener, spec_Storage) Node.
         BuildNode spec_NodeConfig_Validate [] [] [OptDev (Some \<lparr>Token = []\<rparr>)] = Inr n \<and>
         Name n = ''dev'' \<and> GetToken n = Inr ''devroot'')"
  by (auto simp: BuildNode_def Validate_def zero_NodeConfig_def spec_NodeConfig_Validate_def)

section \<open>Connection surface: properties\<close>

lemma GetToken_total: "\<exists>token. GetToken n = Inr token"
  by (simp add: GetToken_def Let_def split: option.split)

text \<open>
  Claim C8, as amended. When the connect address of the node resolves, \<open>GetEnv\<close> returns
  the mapping of exactly two variables, \<open>VAULT_ADDR\<close> to the connect URL and \<open>VAULT_TOKEN\<close>
  to the token; when it does not, \<open>GetEnv\<close> returns that error and no mapping. The names of
  the variables do not depend on the node's type: \<open>GetEnv\<close> returns the same on the node
  with any other type.
\<close>

theorem GetEnv_vault_variables:
  "(\<forall>err. GetConnectAddr cga n = Inl err \<longrightarrow> GetEnv cga n = Inl err) \<and>
   (\<forall>addr. GetConnectAddr cga n = Inr addr \<longrightarrow>
      (\<exists>token. GetToken n = Inr token \<and>
         GetEnv cga n = Inr [''VAULT_ADDR'' \<mapsto> addr, ''VAULT_TOKEN'' \<mapsto> token])) \<and>
   GetEnv cga (n\<lparr>Type := ty\<rparr>) = GetEnv cga n"
proof (intro conjI allI impI)
  fix err assume "GetConnectAddr cga n = Inl err"
  then show "GetEnv cga n = Inl err"
    by (simp add: GetEnv_def)
next
  fix addr assume a: "GetConnectAddr cga n = Inr addr"
  from GetToken_total obtain token where t: "GetToken n = Inr token"
    by blast
  with a have "GetEnv cga n = Inr [''VAULT_ADDR'' \<mapsto> addr, ''VAULT_TOKEN'' \<mapsto> token]"
    by (simp add: GetEnv_def)
  with t show "\<exists>token. GetToken n = Inr token \<and>
         GetEnv cga n = Inr [''VAULT_ADDR'' \<mapsto> addr, ''VAULT_TOKEN'' \<mapsto> token]"
    by blast
next
  have "GetConnectAddr cga (n\<lparr>Type := ty\<rparr>) = GetConnectAddr cga n"
    by (simp add: GetConnectAddr_def split: sum.split)
  moreover have "GetToken (n\<lparr>Type := ty\<rparr>) = GetToken n"
    by (simp add: GetToken_def)
  ultimately show "GetEnv cga (n\<lparr>Type := ty\<rparr>) = GetEnv cga n"
    by (simp add: GetEnv_def Let_def split: sum.split)
qed

theorem GetEnv_vault_variables_witness:
  "GetConnectAddr (spec_NodeConfig_GetConnectAddr ''127.0.0.1:8200'')
     \<lparr>Name = ''n1'', Type = ''bao'', Exec = None,
      Config = \<lparr>Listeners = [], Storage = (None :: spec_Storage option),
                 Dev = Some \<lparr>Token = []\<rparr>\<rparr>\<rparr> = Inr ''http://127.0.0.1:8200'' \<and>
   GetEnv (spec_NodeConfig_GetConnectAddr ''127.0.0.1:8200'')
     \<lparr>Name = ''n1'', Type = ''bao'', Exec = None,
      Config = \<lparr>Listeners = [], Storage = (None :: spec_Storage option),
                 Dev = Some \<lparr>Token = []\<rparr>\<rparr>\<rparr> =
     Inr [''VAULT_ADDR'' \<mapsto> ''http://127.0.0.1:8200'', ''VAULT_TOKEN'' \<mapsto> ''devroot''] \<and>
   GetConnectAddr (spec_NodeConfig_GetConnectAddr ''127.0.0.1:8200'')
     \<lparr>Name = ''n2'', Type = ''bao'', Exec = None,
      Config = \<lparr>Listeners = [], Storage = Some (SpecStorage ''file''), Dev = None\<rparr>\<rparr> =
     Inl (Errorf ''failed to get connection address for node %v: %w'' [ArgV ''n2'']
            (Some (Errorf ''no listener to connect to'' [] None))) \<and>
   GetEnv (spec_NodeConfig_GetConnectAddr ''127.0.0.1:8200'')
     \<lparr>Name = ''n2'', Type = ''bao'', Exec = None,
      Config = \<lparr>Listeners = [], Storage = Some (SpecStorage ''file''), Dev = None\<rparr>\<rparr> =
     Inl (Errorf ''failed to get connection address for node %v: %w'' [ArgV ''n2'']
            (Some (Errorf ''no listener to connect to'' [] None)))"
proof -
  have a: "GetConnectAddr (spec_NodeConfig_GetConnectAddr ''127.0.0.1:8200'')
     \<lparr>Name = ''n1'', Type = ''bao'', Exec = None,
      Config = \<lparr>Listeners = [], Storage = (None :: spec_Storage option),
                 Dev = Some \<lparr>Token = []\<rparr>\<rparr>\<rparr> = Inr ''http://127.0.0.1:8200''"
    by (simp add: GetConnectAddr_def spec_NodeConfig_GetConnectAddr_def)
  have t: "GetToken \<lparr>Name = ''n1'', Type = ''bao'', Exec = None,
      Config = \<lparr>Listeners = ([] :: spec_Listener list), Storage = (None :: spec_Storage option),
                 Dev = Some \<lparr>Token = []\<rparr>\<rparr>\<rparr> = Inr ''devroot''"
    by (simp add: GetToken_def)
  have b: "GetConnectAddr (spec_NodeConfig_GetConnectAddr ''127.0.0.1:8200'')
     \<lparr>Name = ''n2'', Type = ''bao'', Exec = None,
      Config = \<lparr>Listeners = [], Storage = Some (SpecStorage ''file''), Dev = None\<rparr>\<rparr> =
     Inl (Errorf ''failed to get connection address for node %v: %w'' [ArgV ''n2'']
            (Some (Errorf ''no listener to connect to'' [] None)))"
    by (simp add: GetConnectAddr_def spec_NodeConfig_GetConnectAddr_def)
  from a t GetEnv_vault_variables [of "spec_NodeConfig_GetConnectAddr ''127.0.0.1:8200''"
     "\<lparr>Name = ''n1'', Type = ''bao'', Exec = None,
      Config = \<lparr>Listeners = [], Storage = (None :: spec_Storage option),
                 Dev = Some \<lparr>Token = []\<rparr>\<rparr>\<rparr>"]
  have c: "GetEnv (spec_NodeConfig_GetConnectAddr ''127.0.0.1:8200'')
     \<lparr>Name = ''n1'', Type = ''bao'', Exec = None,
      Config = \<lparr>Listeners = [], Storage = (None :: spec_Storage option),
                 Dev = Some \<lparr>Token = []\<rparr>\<rparr>\<rparr> =
     Inr [''VAULT_ADDR'' \<mapsto> ''http://127.0.0.1:8200'', ''VAULT_TOKEN'' \<mapsto> ''devroot'']"
    by auto
  from b GetEnv_vault_variables [of "spec_NodeConfig_GetConnectAddr ''127.0.0.1:8200''"
     "\<lparr>Name = ''n2'', Type = ''bao'', Exec = None,
      Config = \<lparr>Listeners = [], Storage = Some (SpecStorage ''file''), Dev = None\<rparr>\<rparr>"]
  have d: "GetEnv (spec_NodeConfig_GetConnectAddr ''127.0.0.1:8200'')
     \<lparr>Name = ''n2'', Type = ''bao'', Exec = None,
      Config = \<lparr>Listeners = [], Storage = Some (SpecStorage ''file''), Dev = None\<rparr>\<rparr> =
     Inl (Errorf ''failed to get connection address for node %v: %w'' [ArgV ''n2'']
            (Some (Errorf ''no listener to connect to'' [] None)))"
    by blast
  from a b c d show ?thesis by blast
qed

text \<open>
  The claim as written fails on a node of type \<open>bao\<close>: the mapping \<open>GetEnv\<close> returns has
  no variable with the prefix of that product.
\<close>

theorem GetEnv_prefix_counterexample:
  "\<not> (\<forall>n :: (spec_Listener, spec_Storage) Node.
         \<exists>m. GetEnv (spec_NodeConfig_GetConnectAddr ''127.0.0.1:8200'') n = Inr m \<and>
             m (product_prefix (Type n) @ ''ADDR'') \<noteq> None \<and>
             m (product_prefix (Type n) @ ''TOKEN'') \<noteq> None)"
proof
  assume "\<forall>n :: (spec_Listener, spec_Storage) Node.
         \<exists>m. GetEnv (spec_NodeConfig_GetConnectAddr ''127.0.0.1:8200'') n = Inr m \<and>
             m (product_prefix (Type n) @ ''ADDR'') \<noteq> None \<and>
             m (product_prefix (Type n) @ ''TOKEN'') \<noteq> None"
  then have "\<exists>m. GetEnv (spec_NodeConfig_GetConnectAddr ''127.0.0.1:8200'')
       \<lparr>Name = ''n1'', Type = ''bao'', Exec = None,
        Config = \<lparr>Listeners = ([] :: spec_Listener list), Storage = (None :: spec_Storage option),
                   Dev = Some \<lparr>Token = []\<rparr>\<rparr>\<rparr> = Inr m \<and>
       m (product_prefix ''bao'' @ ''ADDR'') \<noteq> None"
    by (metis Node.select_convs(2))
  then show False
    by (simp add: GetEnv_def GetConnectAddr_def GetToken_def spec_NodeConfig_GetConnectAddr_def
        product_prefix_def)
qed

section \<open>Persistence and lifecycle: properties\<close>

lemma GetDirectory_eq:
  "GetDirectory n w =
     (case home w of
        None \<Rightarrow> Panic ''invalid memory address or nil pointer dereference''
      | Some h \<Rightarrow> Done (filepath_Join [filepath_Join [h, ''.local/share/devbao/nodes''], Name n]))"
  by (simp add: GetDirectory_def NodeBaseDirectory_def split: option.split)

lemma GetDirectory_cong:
  "Name n = Name m \<Longrightarrow> home w = home v \<Longrightarrow> GetDirectory n w = GetDirectory m v"
  by (simp add: GetDirectory_eq split: option.split)

lemma os_home [simp]:
  "home (fst (os_MkdirAll p w)) = home w"
  "home (fst (os_RemoveAll p w)) = home w"
  "home (fst (os_OpenFile p w)) = home w"
  "home (fst (os_Write p d w)) = home w"
  by (simp_all add: os_MkdirAll_def os_RemoveAll_def os_OpenFile_def os_Write_def split: option.split)

lemma os_OpenFile_files:
  "os_OpenFile p w = (w1, r) \<Longrightarrow> files w1 = files w \<or> files w1 = (files w)(p \<mapsto> PlainText [])"
  by (auto simp: os_OpenFile_def split: option.splits if_splits)

lemma os_Write_files:
  "os_Write p d w = (w1, r) \<Longrightarrow>
     (r \<noteq> None \<and> w1 = w) \<or> (r = None \<and> files w1 = (files w)(p \<mapsto> d))"
  by (auto simp: os_Write_def split: option.splits)

lemma SaveConfig_invalid:
  assumes "snd (Validate (cfg_Validate X) n) = Some err"
  shows "SaveConfig X n w =
     Done (fst (Validate (cfg_Validate X) n), w,
           Some (Errorf ''failed validating config prior to saving: %w'' [] (Some err)))"
  using assms by (cases "Validate (cfg_Validate X) n") (simp add: SaveConfig_def)

lemma SaveConfig_valid:
  assumes "snd (Validate (cfg_Validate X) n) = None"
  shows "SaveConfig X n w =
     (let n1 = fst (Validate (cfg_Validate X) n) in
      case GetDirectory n1 w of
        Panic p \<Rightarrow> Panic p
      | Done directory \<Rightarrow>
          (let path = filepath_Join [directory, NODE_JSON_NAME] in
           case os_OpenFile path w of
             (w1, Some err) \<Rightarrow>
               Done (n1, w1, Some (Errorf ''failed to open config file (`%v`) for writing: %w''
                                     [ArgV path] (Some err)))
           | (w1, None) \<Rightarrow>
               (case Node_MarshalJSON X n1 of
                  Inl err \<Rightarrow>
                    Done (n1, w1, Some (Errorf ''failed to marshal config: %w'' [] (Some err)))
                | Inr j \<Rightarrow>
                    (case os_Write path (JsonText j) w1 of
                       (w2, Some err) \<Rightarrow>
                         Done (n1, w2, Some (Errorf ''failed to marshal config: %w'' [] (Some err)))
                     | (w2, None) \<Rightarrow> Done (n1, w2, None)))))"
  using assms by (cases "Validate (cfg_Validate X) n") (simp add: SaveConfig_def)

lemma SaveConfig_written:
  assumes "SaveConfig X n w = Done (n', w', r)"
    and "files w' p = Some (JsonText j)" and "files w p \<noteq> Some (JsonText j)"
  shows "snd (Validate (cfg_Validate X) n) = None \<and> n' = fst (Validate (cfg_Validate X) n) \<and>
         Node_MarshalJSON X n' = Inr j \<and>
         (\<exists>d. GetDirectory n' w = Done d \<and> p = filepath_Join [d, NODE_JSON_NAME])"
proof (cases "snd (Validate (cfg_Validate X) n)")
  case (Some err)
  from SaveConfig_invalid [OF this, of w] assms show ?thesis by simp
next
  case None
  from assms show ?thesis
    unfolding SaveConfig_valid [OF None]
    by (auto simp: Let_def None dest!: os_OpenFile_files os_Write_files
        split: outcome.splits prod.splits option.splits sum.splits if_splits)
qed


lemma Validate_again:
  "Validate cv (fst (Validate cv n)) = (fst (Validate cv n), snd (Validate cv n))"
proof (rule prod_eqI)
  show "fst (Validate cv (fst (Validate cv n))) = fst (fst (Validate cv n), snd (Validate cv n))"
    by (simp add: Validate_named)
  show "snd (Validate cv (fst (Validate cv n))) = snd (fst (Validate cv n), snd (Validate cv n))"
    by (simp only: Validate_snd Validate_fst snd_conv)
qed

lemma SaveConfig_ok:
  assumes "SaveConfig X n w = Done (n', w', None)"
  shows "snd (Validate (cfg_Validate X) n) = None \<and> n' = fst (Validate (cfg_Validate X) n) \<and>
         home w' = home w \<and> oserr w' = oserr w \<and>
         (\<exists>d j. GetDirectory n' w = Done d \<and> Node_MarshalJSON X n' = Inr j \<and>
                files w' (filepath_Join [d, NODE_JSON_NAME]) = Some (JsonText j))"
proof (cases "snd (Validate (cfg_Validate X) n)")
  case (Some err)
  from SaveConfig_invalid [OF this, of w] assms show ?thesis by simp
next
  case None
  from assms show ?thesis
    unfolding SaveConfig_valid [OF None]
    by (auto simp: Let_def None os_OpenFile_def os_Write_def
        split: outcome.splits prod.splits option.splits sum.splits if_splits)
qed

lemma Resume_ok:
  assumes "Resume X n w = Done (n', w', None)"
  shows "\<exists>n2 w2. SaveConfig X n2 w2 = Done (n', w', None)"
  using assms
  by (auto simp: Resume_def split: outcome.splits prod.splits option.splits if_splits)

text \<open>
  Claim C10. \<open>SaveConfig\<close> validates first: on a node that fails \<open>Validate\<close> it returns the
  wrapped error and leaves the world as it was. Whenever a call of \<open>SaveConfig\<close> leaves a
  JSON document in a file that did not hold it before, that document is the snapshot of
  the node as the call leaves it, and this node passes \<open>Validate\<close> unchanged: its name is
  not empty, its type is the empty string, \<open>bao\<close> or \<open>vault\<close>, and its configuration
  validates. The same holds for the snapshot on disk after every successful \<open>Resume\<close>.
\<close>

theorem SaveConfig_persists_only_valid:
  "(\<forall>err. snd (Validate (cfg_Validate X) n) = Some err \<longrightarrow>
      SaveConfig X n w =
        Done (fst (Validate (cfg_Validate X) n), w,
              Some (Errorf ''failed validating config prior to saving: %w'' [] (Some err)))) \<and>
   (\<forall>n' w' r p j.
      SaveConfig X n w = Done (n', w', r) \<and>
      files w' p = Some (JsonText j) \<and> files w p \<noteq> Some (JsonText j) \<longrightarrow>
        Node_MarshalJSON X n' = Inr j \<and>
        Validate (cfg_Validate X) n' = (n', None) \<and>
        Name n' \<noteq> [] \<and> Type n' \<in> {[], ''bao'', ''vault''} \<and> cfg_Validate X (Config n') = None) \<and>
   (\<forall>n' w'.
      Resume X n w = Done (n', w', None) \<longrightarrow>
        Validate (cfg_Validate X) n' = (n', None) \<and>
        (\<exists>d j. GetDirectory n' w' = Done d \<and> Node_MarshalJSON X n' = Inr j \<and>
               files w' (filepath_Join [d, NODE_JSON_NAME]) = Some (JsonText j)))"
proof -
  have first: "SaveConfig X n w =
        Done (fst (Validate (cfg_Validate X) n), w,
              Some (Errorf ''failed validating config prior to saving: %w'' [] (Some err)))"
    if "snd (Validate (cfg_Validate X) n) = Some err" for err
    using that by (rule SaveConfig_invalid)
  have second: "Node_MarshalJSON X n' = Inr j \<and>
        Validate (cfg_Validate X) n' = (n', None) \<and>
        Name n' \<noteq> [] \<and> Type n' \<in> {[], ''bao'', ''vault''} \<and> cfg_Validate X (Config n') = None"
    if a: "SaveConfig X n w = Done (n', w', r) \<and>
      files w' p = Some (JsonText j) \<and> files w p \<noteq> Some (JsonText j)" for n' w' r p j
  proof -
    from a have b: "snd (Validate (cfg_Validate X) n) = None"
      "n' = fst (Validate (cfg_Validate X) n)" "Node_MarshalJSON X n' = Inr j"
      using SaveConfig_written [of X n w n' w' r p j] by blast+
    from b(1,2) have v: "Validate (cfg_Validate X) n' = (n', None)"
      by (simp add: Validate_again)
    then have "snd (Validate (cfg_Validate X) n') = None"
      by simp
    then have t: "Type n' \<in> {[], ''bao'', ''vault''}" "cfg_Validate X (Config n') = None"
      by (simp_all add: Validate_ok_iff)
    from b(2) have "Name n' \<noteq> []"
      by simp
    with b(3) v t show ?thesis
      by blast
  qed
  have third: "Validate (cfg_Validate X) n' = (n', None) \<and>
        (\<exists>d j. GetDirectory n' w' = Done d \<and> Node_MarshalJSON X n' = Inr j \<and>
               files w' (filepath_Join [d, NODE_JSON_NAME]) = Some (JsonText j))"
    if a: "Resume X n w = Done (n', w', None)" for n' w'
  proof -
    from a obtain n2 w2 where s: "SaveConfig X n2 w2 = Done (n', w', None)"
      using Resume_ok by blast
    from SaveConfig_ok [OF s] obtain d j where
      b: "snd (Validate (cfg_Validate X) n2) = None" "n' = fst (Validate (cfg_Validate X) n2)"
         "home w' = home w2" "GetDirectory n' w2 = Done d" "Node_MarshalJSON X n' = Inr j"
         "files w' (filepath_Join [d, NODE_JSON_NAME]) = Some (JsonText j)"
      by blast
    from b(1,2) have v: "Validate (cfg_Validate X) n' = (n', None)"
      by (simp add: Validate_again)
    from b(3,4) have "GetDirectory n' w' = Done d"
      by (simp add: GetDirectory_eq)
    with v b(5,6) show ?thesis
      by blast
  qed
  from first second third show ?thesis
    by blast
qed

text \<open>The paths of the two nodes under the home directory of \<open>ex_world\<close>.\<close>

lemma ex_GetDirectory_n1:
  "home w = Some ''/home/u'' \<Longrightarrow> Name n = ''n1'' \<Longrightarrow>
   GetDirectory n w = Done ''/home/u/.local/share/devbao/nodes/n1''"
  by (simp add: GetDirectory_def NodeBaseDirectory_def filepath_Join_def filepath_Clean_def)

lemma ex_GetDirectory_n2:
  "home w = Some ''/home/u'' \<Longrightarrow> Name n = ''n2'' \<Longrightarrow>
   GetDirectory n w = Done ''/home/u/.local/share/devbao/nodes/n2''"
  by (simp add: GetDirectory_def NodeBaseDirectory_def filepath_Join_def filepath_Clean_def)

lemma ex_files_n1:
  "filepath_Join [''/home/u/.local/share/devbao/nodes/n1'', ''node.json''] =
     ''/home/u/.local/share/devbao/nodes/n1/node.json''"
  "filepath_Join [''/home/u/.local/share/devbao/nodes/n1'', ''config.hcl''] =
     ''/home/u/.local/share/devbao/nodes/n1/config.hcl''"
  "dirname ''/home/u/.local/share/devbao/nodes/n1/node.json'' =
     ''/home/u/.local/share/devbao/nodes/n1''"
  "dirname ''/home/u/.local/share/devbao/nodes/n1/config.hcl'' =
     ''/home/u/.local/share/devbao/nodes/n1''"
  by (simp_all add: filepath_Join_def filepath_Clean_def dirname_def)

lemma ex_files_n2:
  "filepath_Join [''/home/u/.local/share/devbao/nodes/n2'', ''node.json''] =
     ''/home/u/.local/share/devbao/nodes/n2/node.json''"
  "filepath_Join [''/home/u/.local/share/devbao/nodes/n2'', ''config.hcl''] =
     ''/home/u/.local/share/devbao/nodes/n2/config.hcl''"
  "dirname ''/home/u/.local/share/devbao/nodes/n2/node.json'' =
     ''/home/u/.local/share/devbao/nodes/n2''"
  "dirname ''/home/u/.local/share/devbao/nodes/n2/config.hcl'' =
     ''/home/u/.local/share/devbao/nodes/n2''"
  by (simp_all add: filepath_Join_def filepath_Clean_def dirname_def)

lemmas run_defs =
  Validate_def spec_collab_def spec_NodeConfig_Validate_def
  ex_GetDirectory_n1 ex_GetDirectory_n2 ex_files_n1 ex_files_n2
  os_MkdirAll_def os_RemoveAll_def os_Open_def os_OpenFile_def os_Write_def
  Node_MarshalJSON_def Node_fields_def NODE_JSON_NAME_def INSTANCE_CONFIG_NAME_def
  coerce_utf8.simps ex_world_def ex_dev_node_def ex_prod_node_def Let_def
  spec_NodeConfig_MarshalJSON_def spec_DevConfig_MarshalJSON_def spec_Listener_MarshalJSON_def
  spec_Storage_MarshalJSON_def spec_Exec_MarshalJSON_def

lemma ex_SaveConfig_dev:
  "SaveConfig spec_collab ex_dev_node (ex_world\<lparr>dirs := {''/home/u/.local/share/devbao/nodes/n1''}\<rparr>) =
     Done (ex_dev_node,
           \<lparr>home = Some ''/home/u'', dirs = {''/home/u/.local/share/devbao/nodes/n1''},
            files = [''/home/u/.local/share/devbao/nodes/n1/node.json'' \<mapsto>
                       JsonText (JObject
                         [(''name'', JString ''n1''), (''type'', JString ''bao''), (''exec'', JNull),
                          (''config'', JObject [(''listeners'', JArray []),
                                                (''dev'', JObject [(''token'', JString [])])])])],
            oserr = (\<lambda>op. None)\<rparr>,
           None)"
  by (simp add: SaveConfig_def run_defs)

theorem SaveConfig_persists_only_valid_witness:
  "snd (Validate (cfg_Validate spec_collab) (ex_prod_node\<lparr>Type := ''consul''\<rparr>)) =
     Some (Errorf ''invalid node type (`%s`): expected either empty (``), OpenBao (`bao`), or HashiCorp Vault (`vault`)''
             [ArgV ''consul''] None) \<and>
   SaveConfig spec_collab (ex_prod_node\<lparr>Type := ''consul''\<rparr>) ex_world =
     Done (ex_prod_node\<lparr>Type := ''consul''\<rparr>, ex_world,
           Some (Errorf ''failed validating config prior to saving: %w'' []
             (Some (Errorf ''invalid node type (`%s`): expected either empty (``), OpenBao (`bao`), or HashiCorp Vault (`vault`)''
                      [ArgV ''consul''] None)))) \<and>
   (\<exists>w'. SaveConfig spec_collab ex_dev_node
            (ex_world\<lparr>dirs := {''/home/u/.local/share/devbao/nodes/n1''}\<rparr>) = Done (ex_dev_node, w', None) \<and>
         files w' ''/home/u/.local/share/devbao/nodes/n1/node.json'' =
           Some (JsonText (JObject
                   [(''name'', JString ''n1''), (''type'', JString ''bao''), (''exec'', JNull),
                    (''config'', JObject [(''listeners'', JArray []),
                                          (''dev'', JObject [(''token'', JString [])])])]))) \<and>
   files (ex_world\<lparr>dirs := {''/home/u/.local/share/devbao/nodes/n1''}\<rparr>)
     ''/home/u/.local/share/devbao/nodes/n1/node.json'' = None \<and>
   Validate (cfg_Validate spec_collab) ex_dev_node = (ex_dev_node, None)"
proof -
  let ?bad = "ex_prod_node\<lparr>Type := ''consul''\<rparr>"
  let ?w = "ex_world\<lparr>dirs := {''/home/u/.local/share/devbao/nodes/n1''}\<rparr>"
  let ?p = "''/home/u/.local/share/devbao/nodes/n1/node.json''"
  let ?j = "JObject [(''name'', JString ''n1''), (''type'', JString ''bao''), (''exec'', JNull),
                    (''config'', JObject [(''listeners'', JArray []),
                                          (''dev'', JObject [(''token'', JString [])])])]"
  have v: "snd (Validate (cfg_Validate spec_collab) ?bad) =
     Some (Errorf ''invalid node type (`%s`): expected either empty (``), OpenBao (`bao`), or HashiCorp Vault (`vault`)''
             [ArgV ''consul''] None)"
    by (simp add: Validate_def ex_prod_node_def)
  have f: "fst (Validate (cfg_Validate spec_collab) ?bad) = ?bad"
    by (simp add: Validate_named ex_prod_node_def)
  note inv = SaveConfig_persists_only_valid
    [of spec_collab ?bad ex_world, THEN conjunct1, rule_format, OF v]
  have a: "SaveConfig spec_collab ?bad ex_world =
     Done (?bad, ex_world,
           Some (Errorf ''failed validating config prior to saving: %w'' []
             (Some (Errorf ''invalid node type (`%s`): expected either empty (``), OpenBao (`bao`), or HashiCorp Vault (`vault`)''
                      [ArgV ''consul''] None))))"
    using inv unfolding f .
  from ex_SaveConfig_dev obtain w' where
    s: "SaveConfig spec_collab ex_dev_node ?w = Done (ex_dev_node, w', None)"
       "files w' ?p = Some (JsonText ?j)"
    by simp
  have n: "files ?w ?p = None"
    by (simp add: ex_world_def)
  then have n': "files ?w ?p \<noteq> Some (JsonText ?j)"
    by simp
  note wr = SaveConfig_persists_only_valid
    [of spec_collab ex_dev_node ?w, THEN conjunct2, THEN conjunct1, rule_format,
     of ex_dev_node w' None ?p ?j, OF conjI [OF s(1) conjI [OF s(2) n']]]
  then have b: "Validate (cfg_Validate spec_collab) ex_dev_node = (ex_dev_node, None)"
    by (rule conjunct2 [THEN conjunct1])
  show ?thesis
    using v a s n b by (intro conjI exI [of _ w']) 
qed







lemma SaveInstanceConfig_cong:
  "Name n = Name m \<Longrightarrow> SaveInstanceConfig n config w = SaveInstanceConfig m config w"
  by (simp add: SaveInstanceConfig_def GetDirectory_cong [of n m w w])

lemma SaveInstanceConfig_no_Panic:
  "home w = Some h \<Longrightarrow> SaveInstanceConfig n config w \<noteq> Panic p"
  by (simp add: SaveInstanceConfig_def GetDirectory_eq Let_def split: prod.split option.split)

lemma buildExec_total:
  assumes "home w = Some h"
  shows "\<exists>n' w' r. buildExec X n w = Done (n', w', r)"
proof (cases "Validate (cfg_Validate X) n")
  case (Pair n1 v)
  obtain w1 m where m: "os_MkdirAll (filepath_Join [filepath_Join [h, ''.local/share/devbao/nodes''], Name n1]) w = (w1, m)"
    by (cases "os_MkdirAll (filepath_Join [filepath_Join [h, ''.local/share/devbao/nodes''], Name n1]) w")
  then have "w1 = fst (os_MkdirAll (filepath_Join [filepath_Join [h, ''.local/share/devbao/nodes''], Name n1]) w)"
    by simp
  with assms have "home w1 = Some h"
    by simp
  note s = SaveInstanceConfig_no_Panic [OF this]
  show ?thesis
    unfolding buildExec_def Pair
    using assms m
    by (auto simp: GetDirectory_eq s split: option.split sum.split prod.split outcome.split)
qed

lemma buildExec_error_keeps_Exec:
  assumes "buildExec X n w = Done (n', w', Some err)"
  shows "Exec n' = Exec n"
proof (cases "Validate (cfg_Validate X) n")
  case (Pair n1 v)
  have "Exec (fst (Validate (cfg_Validate X) n)) = Exec n"
    by simp
  with Pair have e: "Exec n1 = Exec n"
    by simp
  from assms have "Exec n' = Exec n1"
    unfolding buildExec_def Pair
    by (auto split: prod.splits option.splits outcome.splits sum.splits if_splits)
  with e show ?thesis
    by simp
qed

lemma buildExec_success:
  assumes "buildExec X n w = Done (n', w', None)"
  shows "\<exists>directory addr isTls args config w1.
           snd (Validate (cfg_Validate X) n) = None \<and>
           GetDirectory n' w = Done directory \<and>
           os_MkdirAll directory w = (w1, None) \<and>
           cfg_GetConnectAddr X (Config n) = Inr (addr, isTls) \<and>
           cfg_AddArgs X (Config n) directory = Inr args \<and>
           cfg_ToConfig X (Config n) directory = Inr config \<and>
           (if config = [] then
              Dev (Config n) \<noteq> None \<and> w' = w1 \<and>
              Exec n' = Some \<lparr>Args = args, Directory = directory, ConnectAddress = addr, Pid = 0\<rparr>
            else
              (\<exists>path. SaveInstanceConfig n' config w1 = Done (w', Inr path) \<and>
                 Exec n' = Some \<lparr>Args = args @ [''-config='' @ path], Directory = directory,
                                ConnectAddress = addr, Pid = 0\<rparr>))"
proof (cases "Validate (cfg_Validate X) n")
  case (Pair n1 v)
  have "Config (fst (Validate (cfg_Validate X) n)) = Config n"
    by simp
  with Pair have c: "Config n1 = Config n"
    by simp
  have cong: "\<And>e config w1. SaveInstanceConfig (n1\<lparr>Exec := e\<rparr>) config w1 = SaveInstanceConfig n1 config w1"
    by (rule SaveInstanceConfig_cong) simp
  have dir: "\<And>e. GetDirectory (n1\<lparr>Exec := e\<rparr>) w = GetDirectory n1 w"
    by (rule GetDirectory_cong) simp_all
  from assms show ?thesis
    unfolding buildExec_def Pair
    by (fastforce simp: c cong dir split: prod.splits option.splits outcome.splits sum.splits if_splits)
qed

text \<open>
  Claim C4. In a world where the home directory resolves, \<open>buildExec\<close> returns. When it
  returns an error, whichever step failed, the node's \<open>Exec\<close> is what it was before the
  call. When it returns no error, every step has succeeded (validation, the creation of
  the directory, the connect address, the arguments, the configuration body, which is
  empty only in dev mode, and the writing of the instance configuration when the body is
  not empty) and \<open>Exec\<close> is the environment assembled from their results.
\<close>

theorem buildExec_installs_exec_last:
  "(\<forall>h. home w = Some h \<longrightarrow> (\<exists>n' w' r. buildExec X n w = Done (n', w', r))) \<and>
   (\<forall>n' w' err. buildExec X n w = Done (n', w', Some err) \<longrightarrow> Exec n' = Exec n) \<and>
   (\<forall>n' w'. buildExec X n w = Done (n', w', None) \<longrightarrow>
      (\<exists>directory addr isTls args config w1.
         snd (Validate (cfg_Validate X) n) = None \<and>
         GetDirectory n' w = Done directory \<and>
         os_MkdirAll directory w = (w1, None) \<and>
         cfg_GetConnectAddr X (Config n) = Inr (addr, isTls) \<and>
         cfg_AddArgs X (Config n) directory = Inr args \<and>
         cfg_ToConfig X (Config n) directory = Inr config \<and>
         (if config = [] then
            Dev (Config n) \<noteq> None \<and> w' = w1 \<and>
            Exec n' = Some \<lparr>Args = args, Directory = directory, ConnectAddress = addr, Pid = 0\<rparr>
          else
            (\<exists>path. SaveInstanceConfig n' config w1 = Done (w', Inr path) \<and>
               Exec n' = Some \<lparr>Args = args @ [''-config='' @ path], Directory = directory,
                              ConnectAddress = addr, Pid = 0\<rparr>))))"
proof (intro conjI)
  show "\<forall>h. home w = Some h \<longrightarrow> (\<exists>n' w' r. buildExec X n w = Done (n', w', r))"
    using buildExec_total by blast
  show "\<forall>n' w' err. buildExec X n w = Done (n', w', Some err) \<longrightarrow> Exec n' = Exec n"
    using buildExec_error_keeps_Exec by blast
  show "\<forall>n' w'. buildExec X n w = Done (n', w', None) \<longrightarrow>
      (\<exists>directory addr isTls args config w1.
         snd (Validate (cfg_Validate X) n) = None \<and>
         GetDirectory n' w = Done directory \<and>
         os_MkdirAll directory w = (w1, None) \<and>
         cfg_GetConnectAddr X (Config n) = Inr (addr, isTls) \<and>
         cfg_AddArgs X (Config n) directory = Inr args \<and>
         cfg_ToConfig X (Config n) directory = Inr config \<and>
         (if config = [] then
            Dev (Config n) \<noteq> None \<and> w' = w1 \<and>
            Exec n' = Some \<lparr>Args = args, Directory = directory, ConnectAddress = addr, Pid = 0\<rparr>
          else
            (\<exists>path. SaveInstanceConfig n' config w1 = Done (w', Inr path) \<and>
               Exec n' = Some \<lparr>Args = args @ [''-config='' @ path], Directory = directory,
                              ConnectAddress = addr, Pid = 0\<rparr>)))"
    by (intro allI impI) (rule buildExec_success)
qed

lemmas build_defs =
  buildExec_def SaveInstanceConfig_def spec_NodeConfig_GetConnectAddr_def
  spec_NodeConfig_AddArgs_def spec_NodeConfig_ToConfig_def

lemma ex_buildExec_prod:
  "buildExec spec_collab ex_prod_node ex_world =
     Done (ex_prod_node
             \<lparr>Exec := Some \<lparr>Args = [''server'',
                                     ''-config=/home/u/.local/share/devbao/nodes/n2/config.hcl''],
                             Directory = ''/home/u/.local/share/devbao/nodes/n2'',
                             ConnectAddress = ''127.0.0.1:8200'', Pid = 0\<rparr>\<rparr>,
           \<lparr>home = Some ''/home/u'', dirs = {''/home/u/.local/share/devbao/nodes/n2''},
            files = [''/home/u/.local/share/devbao/nodes/n2/config.hcl'' \<mapsto>
                       PlainText ''listener 127.0.0.1:8200; listener 127.0.0.1:8300; storage file /home/u/.local/share/devbao/nodes/n2''],
            oserr = (\<lambda>op. None)\<rparr>,
           None)"
  by (simp add: build_defs run_defs)

lemma ex_buildExec_write_fails:
  "buildExec spec_collab
     (ex_prod_node\<lparr>Exec := Some \<lparr>Args = [''old''], Directory = ''d'', ConnectAddress = ''a'', Pid = 7\<rparr>\<rparr>)
     (ex_world\<lparr>oserr := (\<lambda>op. if op = OpWrite ''/home/u/.local/share/devbao/nodes/n2/config.hcl''
                                then Some (Errorf ''no space left on device'' [] None) else None)\<rparr>) =
     Done (ex_prod_node\<lparr>Exec := Some \<lparr>Args = [''old''], Directory = ''d'', ConnectAddress = ''a'', Pid = 7\<rparr>\<rparr>,
           \<lparr>home = Some ''/home/u'', dirs = {''/home/u/.local/share/devbao/nodes/n2''},
            files = [''/home/u/.local/share/devbao/nodes/n2/config.hcl'' \<mapsto> PlainText []],
            oserr = (\<lambda>op. if op = OpWrite ''/home/u/.local/share/devbao/nodes/n2/config.hcl''
                            then Some (Errorf ''no space left on device'' [] None) else None)\<rparr>,
           Some (Errorf ''error persisting node configuration: %w'' []
                  (Some (Errorf ''failed to write instance config file (`%v`): %w''
                           [ArgV ''/home/u/.local/share/devbao/nodes/n2/config.hcl'']
                           (Some (Errorf ''no space left on device'' [] None))))))"
  by (simp add: build_defs run_defs)

theorem buildExec_installs_exec_last_witness:
  "home ex_world = Some ''/home/u'' \<and>
   (\<exists>n' w' r. buildExec spec_collab ex_prod_node ex_world = Done (n', w', r)) \<and>
   (\<exists>n' w'. buildExec spec_collab ex_prod_node ex_world = Done (n', w', None) \<and>
      snd (Validate (cfg_Validate spec_collab) ex_prod_node) = None \<and>
      Exec n' = Some \<lparr>Args = [''server'', ''-config=/home/u/.local/share/devbao/nodes/n2/config.hcl''],
                       Directory = ''/home/u/.local/share/devbao/nodes/n2'',
                       ConnectAddress = ''127.0.0.1:8200'', Pid = 0\<rparr>) \<and>
   (\<exists>n' w' err.
      buildExec spec_collab
        (ex_prod_node\<lparr>Exec := Some \<lparr>Args = [''old''], Directory = ''d'', ConnectAddress = ''a'', Pid = 7\<rparr>\<rparr>)
        (ex_world\<lparr>oserr := (\<lambda>op. if op = OpWrite ''/home/u/.local/share/devbao/nodes/n2/config.hcl''
                                   then Some (Errorf ''no space left on device'' [] None) else None)\<rparr>) =
        Done (n', w', Some err) \<and>
      Exec n' = Some \<lparr>Args = [''old''], Directory = ''d'', ConnectAddress = ''a'', Pid = 7\<rparr>)"
proof -
  let ?old = "\<lparr>Args = [''old''], Directory = ''d'', ConnectAddress = ''a'', Pid = 7\<rparr>"
  let ?wf = "ex_world\<lparr>oserr := (\<lambda>op. if op = OpWrite ''/home/u/.local/share/devbao/nodes/n2/config.hcl''
                                   then Some (Errorf ''no space left on device'' [] None) else None)\<rparr>"
  have h: "home ex_world = Some ''/home/u''"
    by (simp add: ex_world_def)
  note total = buildExec_installs_exec_last
    [of ex_world spec_collab ex_prod_node, THEN conjunct1, rule_format, OF h]
  from ex_buildExec_prod obtain n' w' where
    ok: "buildExec spec_collab ex_prod_node ex_world = Done (n', w', None)"
        "Exec n' = Some \<lparr>Args = [''server'', ''-config=/home/u/.local/share/devbao/nodes/n2/config.hcl''],
                       Directory = ''/home/u/.local/share/devbao/nodes/n2'',
                       ConnectAddress = ''127.0.0.1:8200'', Pid = 0\<rparr>"
    by simp
  note steps = buildExec_installs_exec_last
    [of ex_world spec_collab ex_prod_node, THEN conjunct2, THEN conjunct2, rule_format, OF ok(1)]
  then have v: "snd (Validate (cfg_Validate spec_collab) ex_prod_node) = None"
    by blast
  from ex_buildExec_write_fails obtain m v' err where
    bad: "buildExec spec_collab (ex_prod_node\<lparr>Exec := Some ?old\<rparr>) ?wf = Done (m, v', Some err)"
    by simp
  note keep = buildExec_installs_exec_last
    [of ?wf spec_collab "ex_prod_node\<lparr>Exec := Some ?old\<rparr>", THEN conjunct2, THEN conjunct1,
     rule_format, OF bad]
  then have k: "Exec m = Some ?old"
    by simp
  from ok v have second: "\<exists>n' w'. buildExec spec_collab ex_prod_node ex_world = Done (n', w', None) \<and>
      snd (Validate (cfg_Validate spec_collab) ex_prod_node) = None \<and>
      Exec n' = Some \<lparr>Args = [''server'', ''-config=/home/u/.local/share/devbao/nodes/n2/config.hcl''],
                       Directory = ''/home/u/.local/share/devbao/nodes/n2'',
                       ConnectAddress = ''127.0.0.1:8200'', Pid = 0\<rparr>"
    by blast
  from bad k have third: "\<exists>n' w' err.
      buildExec spec_collab (ex_prod_node\<lparr>Exec := Some ?old\<rparr>) ?wf = Done (n', w', Some err) \<and>
      Exec n' = Some ?old"
    by blast
  from h total second third show ?thesis
    by (intro conjI)
qed















section \<open>Snapshot round trip\<close>























end
